theory Spec2Isabelle
  imports Complex_Main "HOL-Library.Sublist"
begin

section \<open>Speech capture controller (electron/main.ts)\<close>

text \<open>
  The main process keeps the speech session in module-level variables:
  \<^verbatim>\<open>isSpeechRecording\<close>, \<^verbatim>\<open>speechShouldStop\<close>, \<^verbatim>\<open>speechPopupGen\<close>, and the window
  references \<^verbatim>\<open>popupWindow\<close> and \<^verbatim>\<open>pickerWindow\<close>. Every handler runs to completion
  on the event loop, so a handler is a function from the state before to the state
  after. What a handler does to the outside (closing a window, creating one, showing a
  dialog, starting the key watcher) is appended to \<open>effects\<close>, oldest first.

  A window reference is \<open>None\<close> for \<^verbatim>\<open>null\<close>. The \<^verbatim>\<open>closed\<close> event of a window that
  \<^verbatim>\<open>close()\<close> was called on is delivered by Electron as a later event; the handler the
  speech popup registers for it is \<open>speechPopupClosed\<close>, with the generation the popup
  captured when it was created.
\<close>

datatype window_kind = SpeechWindow nat | PickerWindow | OtherPopup

record browser_window =
  win_kind :: window_kind
  win_destroyed :: bool

datatype effect =
    CloseWindow window_kind
  | CreateWindow window_kind
  | ShowModelDialog
  | SpawnKeyWatcher nat

record main_state =
  isSpeechRecording :: bool
  speechShouldStop :: bool
  speechPopupGen :: nat
  popupWindow :: "browser_window option"
  pickerWindow :: "browser_window option"
  effects :: "effect list"

text \<open>What a speech-hotkey press reads from outside the state: whether the Whisper model
  is marked as downloaded in the settings file (\<^verbatim>\<open>isWhisperModelDownloaded()\<close>), the
  virtual-key code of the shortcut's main key (\<^verbatim>\<open>shortcutMainVK(currentSpeechShortcut || '')\<close>,
  \<open>None\<close> for \<^verbatim>\<open>null\<close>), and whether the platform is win32.\<close>

record press_env =
  modelDownloaded :: bool
  mainVK :: "nat option"
  isWin32 :: bool

text \<open>\<^verbatim>\<open>w && !w.isDestroyed()\<close>\<close>

definition window_live :: "browser_window option \<Rightarrow> bool" where
  "window_live w = (case w of None \<Rightarrow> False | Some b \<Rightarrow> (if win_destroyed b then False else True))"

text \<open>\<^verbatim>\<open>!w || w?.isDestroyed()\<close>\<close>

definition window_gone :: "browser_window option \<Rightarrow> bool" where
  "window_gone w = (case w of None \<Rightarrow> True | Some b \<Rightarrow> win_destroyed b)"

definition log_effect :: "effect \<Rightarrow> main_state \<Rightarrow> main_state" where
  "log_effect e s = s\<lparr>effects := effects s @ [e]\<rparr>"

text \<open>\<^verbatim>\<open>if (popupWindow && !popupWindow.isDestroyed()) { popupWindow.close(); popupWindow = null }\<close>\<close>

definition closeExistingPopup :: "main_state \<Rightarrow> main_state" where
  "closeExistingPopup s =
     (case popupWindow s of
        None \<Rightarrow> s
      | Some b \<Rightarrow>
          if win_destroyed b then s
          else (log_effect (CloseWindow (win_kind b)) s)\<lparr>popupWindow := None\<rparr>)"

definition closeExistingPicker :: "main_state \<Rightarrow> main_state" where
  "closeExistingPicker s =
     (case pickerWindow s of
        None \<Rightarrow> s
      | Some b \<Rightarrow>
          if win_destroyed b then s
          else (log_effect (CloseWindow (win_kind b)) s)\<lparr>pickerWindow := None\<rparr>)"

text \<open>\<^verbatim>\<open>createSpeechPopupWindow\<close>: close the popup that is there, pre-increment the
  generation counter, and create the new popup, whose \<^verbatim>\<open>closed\<close> handler keeps
  \<^verbatim>\<open>gen\<close>.\<close>

definition createSpeechPopupWindow :: "main_state \<Rightarrow> main_state" where
  "createSpeechPopupWindow s =
     (let s1 = closeExistingPopup s;
          gen = speechPopupGen s1 + 1;
          s2 = s1\<lparr>speechPopupGen := gen\<rparr>;
          s3 = s2\<lparr>popupWindow := Some \<lparr>win_kind = SpeechWindow gen, win_destroyed = False\<rparr>\<rparr>
      in log_effect (CreateWindow (SpeechWindow gen)) s3)"

text \<open>The \<^verbatim>\<open>closed\<close> handler registered by \<^verbatim>\<open>createSpeechPopupWindow\<close>, for the popup
  that captured \<open>gen\<close>.\<close>

definition speechPopupClosed :: "nat \<Rightarrow> main_state \<Rightarrow> main_state" where
  "speechPopupClosed gen s =
     (let s1 = s\<lparr>popupWindow := None\<rparr>
      in if gen = speechPopupGen s1
         then s1\<lparr>isSpeechRecording := False, speechShouldStop := False\<rparr>
         else s1)"

text \<open>\<^verbatim>\<open>handleSpeechShortcutPress\<close>, statement by statement. The continuation of
  \<^verbatim>\<open>waitForKeyRelease\<close> runs later, as \<open>keyReleased\<close>.\<close>

definition handleSpeechShortcutPress :: "press_env \<Rightarrow> main_state \<Rightarrow> main_state" where
  "handleSpeechShortcutPress env s =
     (if isSpeechRecording s then s
      else
        let s1 = (if window_gone (popupWindow s)
                  then s\<lparr>isSpeechRecording := False, speechShouldStop := False\<rparr>
                  else s)
        in if modelDownloaded env then
             (let s2 = s1\<lparr>isSpeechRecording := True, speechShouldStop := False\<rparr>;
                  s3 = createSpeechPopupWindow s2
              in case mainVK env of
                   None \<Rightarrow> s3
                 | Some vk \<Rightarrow> if isWin32 env then log_effect (SpawnKeyWatcher vk) s3 else s3)
           else log_effect ShowModelDialog s1)"

definition keyReleased :: "main_state \<Rightarrow> main_state" where
  "keyReleased s =
     (if isSpeechRecording s \<and> speechShouldStop s = False
      then s\<lparr>speechShouldStop := True\<rparr>
      else s)"

text \<open>\<^verbatim>\<open>ipcMain.handle('close-popup', ...)\<close>; its return value is always \<^verbatim>\<open>true\<close>.\<close>

definition closePopup :: "main_state \<Rightarrow> main_state" where
  "closePopup s =
     (let s1 = closeExistingPopup s;
          s2 = closeExistingPicker s1
      in s2\<lparr>isSpeechRecording := False, speechShouldStop := False\<rparr>)"

text \<open>\<^verbatim>\<open>ipcMain.handle('should-stop-speech', ...)\<close>: the returned boolean and the state
  after the call.\<close>

definition shouldStopSpeech :: "main_state \<Rightarrow> bool \<times> main_state" where
  "shouldStopSpeech s =
     (if speechShouldStop s then (True, s\<lparr>speechShouldStop := False\<rparr>) else (False, s))"

text \<open>Events of the main process, and a run of them in arrival order.\<close>

datatype event =
    SpeechPress press_env
  | KeyReleased
  | SpeechPopupClosed nat
  | ClosePopup
  | ShouldStopSpeech

fun step :: "main_state \<Rightarrow> event \<Rightarrow> main_state" where
  "step s (SpeechPress env) = handleSpeechShortcutPress env s"
| "step s KeyReleased = keyReleased s"
| "step s (SpeechPopupClosed gen) = speechPopupClosed gen s"
| "step s ClosePopup = closePopup s"
| "step s ShouldStopSpeech = snd (shouldStopSpeech s)"

definition run :: "event list \<Rightarrow> main_state \<Rightarrow> main_state" where
  "run evs s = foldl step s evs"

text \<open>The state at start-up, as the module initialises its variables.\<close>

definition initial_state :: main_state where
  "initial_state =
     \<lparr>isSpeechRecording = False, speechShouldStop = False, speechPopupGen = 0,
      popupWindow = None, pickerWindow = None, effects = []\<rparr>"

definition ready_env :: press_env where
  "ready_env = \<lparr>modelDownloaded = True, mainVK = Some 32, isWin32 = True\<rparr>"

section \<open>Selection overlay (src/pages/SelectionOverlay.tsx)\<close>

text \<open>
  The overlay component keeps \<^verbatim>\<open>isSelecting\<close>, \<^verbatim>\<open>startPoint\<close> and \<^verbatim>\<open>currentPoint\<close> as
  React state; each mouse handler reads the state of the last render and sets the next.
  Coordinates are the event's \<^verbatim>\<open>clientX\<close>/\<^verbatim>\<open>clientY\<close>, CSS pixels, taken as real numbers.
  \<open>handleMouseUp\<close> returns the next state and what it passed to
  \<^verbatim>\<open>window.electronAPI?.selectionMade\<close> (\<open>None\<close>: no call), the preload bridge to the
  main process being in place.
\<close>

record point =
  pt_x :: real
  pt_y :: real

record selection_bounds =
  sel_x :: real
  sel_y :: real
  sel_width :: real
  sel_height :: real

record overlay_state =
  isSelecting :: bool
  startPoint :: point
  currentPoint :: point

definition getSelectionBounds :: "overlay_state \<Rightarrow> selection_bounds" where
  "getSelectionBounds s =
     \<lparr>sel_x = min (pt_x (startPoint s)) (pt_x (currentPoint s)),
      sel_y = min (pt_y (startPoint s)) (pt_y (currentPoint s)),
      sel_width = \<bar>pt_x (currentPoint s) - pt_x (startPoint s)\<bar>,
      sel_height = \<bar>pt_y (currentPoint s) - pt_y (startPoint s)\<bar>\<rparr>"

definition handleMouseDown :: "point \<Rightarrow> overlay_state \<Rightarrow> overlay_state" where
  "handleMouseDown e s = s\<lparr>isSelecting := True, startPoint := e, currentPoint := e\<rparr>"

definition handleMouseMove :: "point \<Rightarrow> overlay_state \<Rightarrow> overlay_state" where
  "handleMouseMove e s = (if isSelecting s then s\<lparr>currentPoint := e\<rparr> else s)"

definition handleMouseUp :: "overlay_state \<Rightarrow> overlay_state \<times> selection_bounds option" where
  "handleMouseUp s =
     (if isSelecting s then
        (let s1 = s\<lparr>isSelecting := False\<rparr>;
             bounds = getSelectionBounds s
         in if 10 \<le> sel_width bounds \<and> 10 \<le> sel_height bounds
            then (s1, Some bounds)
            else (s1\<lparr>startPoint := \<lparr>pt_x = 0, pt_y = 0\<rparr>,
                     currentPoint := \<lparr>pt_x = 0, pt_y = 0\<rparr>\<rparr>, None))
      else (s, None))"

text \<open>A completed drag gesture: the button goes down at \<open>p0\<close>, the pointer moves through
  \<open>moves\<close>, and the button is released (or the pointer leaves, which calls the same
  handler).\<close>

definition drag :: "point \<Rightarrow> point list \<Rightarrow> overlay_state \<Rightarrow> overlay_state \<times> selection_bounds option" where
  "drag p0 moves s = handleMouseUp (foldl (\<lambda>st e. handleMouseMove e st) (handleMouseDown p0 s) moves)"

section \<open>Crop mapping (electron/main.ts)\<close>

text \<open>
  The program computes in IEEE doubles. Their arithmetic is not defined here: the
  operations on doubles that the program uses are parameters, a record of functions on a
  type \<open>'f\<close> of doubles, and every property below is proved for all such operations,
  hence for the ones of the program.
  \<^item> \<open>d_div a b\<close> is \<^verbatim>\<open>a / b\<close> for two integer sizes;
  \<^item> \<open>d_mul v s\<close> is \<^verbatim>\<open>v * s\<close> for a coordinate \<open>v\<close> of the selection;
  \<^item> \<open>d_round\<close> is \<^verbatim>\<open>Math.round\<close>. A finite coordinate times the quotient of two
    positive sizes is a number, so the result is an integer or, when the product
    overflows, an infinity;
  \<^item> \<open>d_absdiff a b\<close> is \<^verbatim>\<open>Math.abs(a - b)\<close>, \<open>d_less a b\<close> is \<^verbatim>\<open>a < b\<close>,
    \<open>d_infinity\<close> and \<open>d_tenth\<close> are \<^verbatim>\<open>Infinity\<close> and the literal \<^verbatim>\<open>0.1\<close>.
\<close>

datatype rounded = NegInf | Fin int | PosInf

record 'f double_ops =
  d_div :: "int \<Rightarrow> int \<Rightarrow> 'f"
  d_mul :: "real \<Rightarrow> 'f \<Rightarrow> 'f"
  d_round :: "'f \<Rightarrow> rounded"
  d_absdiff :: "'f \<Rightarrow> 'f \<Rightarrow> 'f"
  d_less :: "'f \<Rightarrow> 'f \<Rightarrow> bool"
  d_infinity :: "'f"
  d_tenth :: "'f"

text \<open>\<^verbatim>\<open>Math.min\<close>, \<^verbatim>\<open>Math.max\<close>, \<^verbatim>\<open>a - b\<close> for an integer \<open>a\<close>, \<^verbatim>\<open>v > 0\<close> and
  \<^verbatim>\<open>v <= 0\<close> on integers and infinities.\<close>

fun math_min :: "rounded \<Rightarrow> rounded \<Rightarrow> rounded" where
  "math_min NegInf b = NegInf"
| "math_min a NegInf = NegInf"
| "math_min PosInf b = b"
| "math_min a PosInf = a"
| "math_min (Fin a) (Fin b) = Fin (min a b)"

fun math_max :: "rounded \<Rightarrow> rounded \<Rightarrow> rounded" where
  "math_max PosInf b = PosInf"
| "math_max a PosInf = PosInf"
| "math_max NegInf b = b"
| "math_max a NegInf = a"
| "math_max (Fin a) (Fin b) = Fin (max a b)"

fun minus_from :: "int \<Rightarrow> rounded \<Rightarrow> rounded" where
  "minus_from a NegInf = PosInf"
| "minus_from a (Fin b) = Fin (a - b)"
| "minus_from a PosInf = NegInf"

fun greater_zero :: "rounded \<Rightarrow> bool" where
  "greater_zero NegInf = False"
| "greater_zero (Fin a) = (0 < a)"
| "greater_zero PosInf = True"

fun at_most_zero :: "rounded \<Rightarrow> bool" where
  "at_most_zero NegInf = True"
| "at_most_zero (Fin a) = (a \<le> 0)"
| "at_most_zero PosInf = False"

text \<open>\<^verbatim>\<open>captureScreenshot\<close> and \<^verbatim>\<open>cropStoredScreenshot\<close> contain the same ten lines that map
  a selection in CSS pixels to a rectangle of the thumbnail: \<open>safeCropRect\<close> is those
  lines. Sizes of images and displays are integers.\<close>

record pixel_rect =
  rect_x :: rounded
  rect_y :: rounded
  rect_width :: rounded
  rect_height :: rounded

record display_info =
  scaleFactor :: real
  bounds_x :: int
  bounds_y :: int
  size_width :: int
  size_height :: int
  displayId :: int

definition safeCropRect ::
  "'f double_ops \<Rightarrow> selection_bounds \<Rightarrow> int \<Rightarrow> int \<Rightarrow> int \<Rightarrow> int \<Rightarrow> pixel_rect" where
  "safeCropRect ops bounds displayWidth displayHeight imageWidth imageHeight =
     (let scaleX = d_div ops imageWidth displayWidth;
          scaleY = d_div ops imageHeight displayHeight;
          cropX = d_round ops (d_mul ops (sel_x bounds) scaleX);
          cropY = d_round ops (d_mul ops (sel_y bounds) scaleY);
          cropWidth = d_round ops (d_mul ops (sel_width bounds) scaleX);
          cropHeight = d_round ops (d_mul ops (sel_height bounds) scaleY);
          safeX = math_max (Fin 0) (math_min cropX (Fin (imageWidth - 1)));
          safeY = math_max (Fin 0) (math_min cropY (Fin (imageHeight - 1)));
          safeWidth = math_min cropWidth (minus_from imageWidth safeX);
          safeHeight = math_min cropHeight (minus_from imageHeight safeY)
      in \<lparr>rect_x = safeX, rect_y = safeY, rect_width = safeWidth, rect_height = safeHeight\<rparr>)"

text \<open>What the crop step hands on: the whole thumbnail, or the thumbnail cropped to a
  rectangle.\<close>

datatype crop_outcome = FullImage | Cropped pixel_rect

text \<open>The crop step of \<^verbatim>\<open>captureScreenshot\<close>: \<^verbatim>\<open>cropBounds\<close> may be undefined and
  \<^verbatim>\<open>selectionDisplayInfo\<close> may be null.\<close>

definition captureCrop ::
  "'f double_ops \<Rightarrow> selection_bounds option \<Rightarrow> display_info option \<Rightarrow> int \<Rightarrow> int \<Rightarrow>
   crop_outcome" where
  "captureCrop ops cropBounds selectionDisplayInfo imageWidth imageHeight =
     (case cropBounds of
        None \<Rightarrow> FullImage
      | Some bounds \<Rightarrow>
          (case selectionDisplayInfo of
             None \<Rightarrow> FullImage
           | Some info \<Rightarrow>
               (let r = safeCropRect ops bounds (size_width info) (size_height info)
                          imageWidth imageHeight
                in if greater_zero (rect_width r) \<and> greater_zero (rect_height r)
                   then Cropped r else FullImage)))"

text \<open>\<^verbatim>\<open>cropStoredScreenshot\<close>: the three early returns give back the stored data URL, that
  is, the full screenshot.\<close>

definition cropStoredScreenshot ::
  "'f double_ops \<Rightarrow> display_info option \<Rightarrow> int \<Rightarrow> int \<Rightarrow> selection_bounds \<Rightarrow>
   crop_outcome" where
  "cropStoredScreenshot ops selectionDisplayInfo imageWidth imageHeight bounds =
     (case selectionDisplayInfo of
        None \<Rightarrow> FullImage
      | Some info \<Rightarrow>
          if imageWidth = 0 \<or> imageHeight = 0 then FullImage
          else
            (let r = safeCropRect ops bounds (size_width info) (size_height info)
                       imageWidth imageHeight
             in if at_most_zero (rect_width r) \<or> at_most_zero (rect_height r)
                then FullImage else Cropped r))"

text \<open>Exact arithmetic, with \<open>None\<close> for \<^verbatim>\<open>Infinity\<close>. It is used for the examples only,
  on inputs where the program's doubles round and compare as the exact numbers do (sizes
  whose quotient is exactly 2, and aspect ratios that are equal or far apart and far from the
  tolerance).\<close>

definition exact_ops :: "real option double_ops" where
  "exact_ops =
     \<lparr>d_div = (\<lambda>a b. if b = 0 then None else Some (of_int a / of_int b)),
      d_mul = (\<lambda>v s. case s of None \<Rightarrow> None | Some q \<Rightarrow> Some (v * q)),
      d_round = (\<lambda>s. case s of None \<Rightarrow> PosInf | Some q \<Rightarrow> Fin \<lfloor>q + 1 / 2\<rfloor>),
      d_absdiff =
        (\<lambda>a b. case a of None \<Rightarrow> None
                | Some x \<Rightarrow> (case b of None \<Rightarrow> None | Some y \<Rightarrow> Some \<bar>x - y\<bar>)),
      d_less =
        (\<lambda>a b. case a of None \<Rightarrow> False
                | Some x \<Rightarrow> (case b of None \<Rightarrow> True | Some y \<Rightarrow> x < y)),
      d_infinity = None,
      d_tenth = Some (1 / 10)\<rparr>"

section \<open>JavaScript values and strings\<close>

text \<open>
  A value as \<^verbatim>\<open>JSON.parse\<close> produces it, and \<^verbatim>\<open>undefined\<close>. An object is the list of its
  own properties in insertion order; a property is read from the first entry with its key.
\<close>

datatype jsval =
    Undefined
  | Null
  | Bool bool
  | Num real
  | Str string
  | Arr "jsval list"
  | Obj "(string \<times> jsval) list"

text \<open>A thrown value. All that are thrown here are instances of \<^verbatim>\<open>Error\<close>; the texts of a
  \<^verbatim>\<open>TypeError\<close> and of a \<^verbatim>\<open>SyntaxError\<close> are written by the engine, not by this
  program, and are given here in short.\<close>

datatype js_error = Error string | TypeError string | SyntaxError string

fun message :: "js_error \<Rightarrow> string" where
  "message (Error m) = m"
| "message (TypeError m) = m"
| "message (SyntaxError m) = m"

definition digit_of :: "nat \<Rightarrow> char" where
  "digit_of n = ''0123456789'' ! (n mod 10)"

text \<open>The decimal text of a natural number, as a template literal or \<^verbatim>\<open>toString()\<close> writes
  an integer (below \<^verbatim>\<open>1e21\<close>).\<close>

fun show_nat :: "nat \<Rightarrow> string" where
  "show_nat n = (if n < 10 then [digit_of n] else show_nat (n div 10) @ [digit_of n])"

declare show_nat.simps [simp del]

definition number_toString :: "int \<Rightarrow> string" where
  "number_toString i = (if i < 0 then CHR ''-'' # show_nat (nat (- i)) else show_nat (nat i))"

definition lookup_prop :: "(string \<times> jsval) list \<Rightarrow> string \<Rightarrow> jsval" where
  "lookup_prop kvs k = (case map_of kvs k of None \<Rightarrow> Undefined | Some v \<Rightarrow> v)"

text \<open>\<^verbatim>\<open>v.k\<close>, for the keys read in this program (\<^verbatim>\<open>choices\<close>, \<^verbatim>\<open>message\<close>, \<^verbatim>\<open>content\<close>,
  \<^verbatim>\<open>prompt\<close>), none of which a string, a number, a boolean or an array has of its own.\<close>

fun get_prop :: "jsval \<Rightarrow> string \<Rightarrow> js_error + jsval" where
  "get_prop Undefined k = Inl (TypeError ''Cannot read properties of undefined'')"
| "get_prop Null k = Inl (TypeError ''Cannot read properties of null'')"
| "get_prop (Obj kvs) k = Inr (lookup_prop kvs k)"
| "get_prop v k = Inr Undefined"

text \<open>\<^verbatim>\<open>v?.k\<close>\<close>

fun opt_prop :: "jsval \<Rightarrow> string \<Rightarrow> jsval" where
  "opt_prop (Obj kvs) k = lookup_prop kvs k"
| "opt_prop v k = Undefined"

text \<open>\<^verbatim>\<open>v[0]\<close>\<close>

fun index0 :: "jsval \<Rightarrow> js_error + jsval" where
  "index0 Undefined = Inl (TypeError ''Cannot read properties of undefined'')"
| "index0 Null = Inl (TypeError ''Cannot read properties of null'')"
| "index0 (Arr xs) = Inr (case xs of [] \<Rightarrow> Undefined | x # rest \<Rightarrow> x)"
| "index0 (Str s) = Inr (case s of [] \<Rightarrow> Undefined | c # rest \<Rightarrow> Str [c])"
| "index0 (Obj kvs) = Inr (lookup_prop kvs ''0'')"
| "index0 v = Inr Undefined"

text \<open>\<^verbatim>\<open>!v\<close>\<close>

fun falsy :: "jsval \<Rightarrow> bool" where
  "falsy Undefined = True"
| "falsy Null = True"
| "falsy (Bool b) = (b = False)"
| "falsy (Num n) = (n = 0)"
| "falsy (Str s) = (s = [])"
| "falsy v = False"

text \<open>The own enumerable properties that \<^verbatim>\<open>{...v}\<close> copies.\<close>

fun spread_props :: "jsval \<Rightarrow> (string \<times> jsval) list" where
  "spread_props (Obj kvs) = kvs"
| "spread_props (Arr xs) = zip (map show_nat [0..<length xs]) xs"
| "spread_props (Str s) = zip (map show_nat [0..<length s]) (map (\<lambda>c. Str [c]) s)"
| "spread_props v = []"

text \<open>Writing a property: in place when the key is there, at the end when it is not.\<close>

fun set_prop :: "(string \<times> jsval) list \<Rightarrow> string \<Rightarrow> jsval \<Rightarrow> (string \<times> jsval) list" where
  "set_prop [] k v = [(k, v)]"
| "set_prop (kv # kvs) k v = (if fst kv = k then (k, v) # kvs else kv # set_prop kvs k v)"

text \<open>\<^verbatim>\<open>hay.includes(needle)\<close>\<close>

fun includes_str :: "string \<Rightarrow> string \<Rightarrow> bool" where
  "includes_str [] needle = (needle = [])"
| "includes_str (c # cs) needle = (prefix needle (c # cs) \<or> includes_str cs needle)"

text \<open>\<^verbatim>\<open>toLowerCase()\<close> on the letters A to Z; other characters are kept.\<close>

definition lower_char :: "char \<Rightarrow> char" where
  "lower_char c =
     (case map_of (zip ''ABCDEFGHIJKLMNOPQRSTUVWXYZ'' ''abcdefghijklmnopqrstuvwxyz'') c of
        None \<Rightarrow> c
      | Some l \<Rightarrow> l)"

definition toLowerCase :: "string \<Rightarrow> string" where
  "toLowerCase s = map lower_char s"

section \<open>Prompt analysis dispatch (electron/main.ts)\<close>

text \<open>
  \<^verbatim>\<open>fetch\<close> resolves with a response or rejects; the response carries \<^verbatim>\<open>ok\<close>, \<^verbatim>\<open>status\<close>
  and its body text. \<^verbatim>\<open>JSON.parse\<close> is a parameter of the model: \<open>None\<close> is its
  \<^verbatim>\<open>SyntaxError\<close>. \<^verbatim>\<open>response.json()\<close> is \<^verbatim>\<open>JSON.parse\<close> of the body.
\<close>

record http_response =
  ok :: bool
  status :: nat
  body :: string

text \<open>\<^verbatim>\<open>data.choices[0]?.message?.content\<close>\<close>

definition response_content :: "jsval \<Rightarrow> js_error + jsval" where
  "response_content data =
     (case get_prop data ''choices'' of
        Inl e \<Rightarrow> Inl e
      | Inr choices \<Rightarrow>
          (case index0 choices of
             Inl e \<Rightarrow> Inl e
           | Inr choice \<Rightarrow> Inr (opt_prop (opt_prop choice ''message'') ''content'')))"

text \<open>\<^verbatim>\<open>content.match(/\{[\s\S]*\}/)\<close>: the match starts at the first opening brace and,
  the star being greedy, ends at the last closing brace after it; there is no match when
  there is no such pair.\<close>

definition match_braces :: "string \<Rightarrow> string option" where
  "match_braces s =
     (case dropWhile (\<lambda>c. c \<noteq> CHR ''{'') s of
        [] \<Rightarrow> None
      | open_brace # rest \<Rightarrow>
          (case rev (dropWhile (\<lambda>c. c \<noteq> CHR ''}'') (rev rest)) of
             [] \<Rightarrow> None
           | c # inner \<Rightarrow> Some (open_brace # c # inner)))"

text \<open>The object returned from the \<^verbatim>\<open>catch\<close> block.\<close>

definition fallback_analysis :: "string \<Rightarrow> jsval" where
  "fallback_analysis content =
     Obj [(''prompt'', Str ''Could not identify prompt''),
          (''score'', Num 50),
          (''feedback'', Str (take 200 content)),
          (''improvedPrompt'', Str []),
          (''refinedScore'', Num 50)]"

text \<open>The \<^verbatim>\<open>try\<close>/\<^verbatim>\<open>catch\<close> at the end of \<^verbatim>\<open>analyzeScreenshotWithVision\<close>, for a truthy
  \<^verbatim>\<open>content\<close>. A string is matched and parsed, and every throw inside the \<^verbatim>\<open>try\<close> ends
  in the fallback object. A value that is not a string has no \<^verbatim>\<open>match\<close> method: the call
  throws inside the \<^verbatim>\<open>try\<close>, and the \<^verbatim>\<open>catch\<close> block then throws itself at
  \<^verbatim>\<open>content.substring\<close>.\<close>

definition parse_content :: "(string \<Rightarrow> jsval option) \<Rightarrow> jsval \<Rightarrow> js_error + jsval" where
  "parse_content JSON_parse content =
     (case content of
        Str text \<Rightarrow>
          (case match_braces text of
             None \<Rightarrow> Inr (fallback_analysis text)
           | Some jsonMatch \<Rightarrow>
               (case JSON_parse jsonMatch of
                  None \<Rightarrow> Inr (fallback_analysis text)
                | Some parsed \<Rightarrow> Inr parsed))
      | other \<Rightarrow> Inl (TypeError ''content.substring is not a function''))"

text \<open>\<^verbatim>\<open>analyzeScreenshotWithVision\<close> from the call of \<^verbatim>\<open>fetch\<close> on. \<open>fetch\<close> is the
  network: the outcome of the request made with this image and this key.\<close>

definition analyzeScreenshotWithVision ::
  "(string \<Rightarrow> jsval option) \<Rightarrow> (string \<Rightarrow> string \<Rightarrow> js_error + http_response) \<Rightarrow>
   string \<Rightarrow> string \<Rightarrow> js_error + jsval" where
  "analyzeScreenshotWithVision JSON_parse fetch imageDataUrl apiKey =
     (case fetch imageDataUrl apiKey of
        Inl e \<Rightarrow> Inl e
      | Inr response \<Rightarrow>
          if ok response then
            (case JSON_parse (body response) of
               None \<Rightarrow> Inl (SyntaxError ''Unexpected token in JSON'')
             | Some data \<Rightarrow>
                 (case response_content data of
                    Inl e \<Rightarrow> Inl e
                  | Inr content \<Rightarrow>
                      if falsy content then Inl (Error ''No response from AI'')
                      else parse_content JSON_parse content))
          else Inl (Error (''OpenRouter API error: '' @ show_nat (status response) @ '' - ''
                           @ body response)))"

text \<open>The response envelope: \<^verbatim>\<open>{success: true, data}\<close> or \<^verbatim>\<open>{success: false, error}\<close>.\<close>

datatype envelope = Success jsval | Failure string

text \<open>\<^verbatim>\<open>ipcMain.handle('analyze-prompt', ...)\<close>. \<open>apiKey\<close> is
  \<^verbatim>\<open>customApiKey || DEFAULT_OPENROUTER_API_KEY\<close>; \<open>screenshot\<close> is what cropping the stored
  screenshot or capturing a new one gave, a data URL or a throw. The handler also clears
  the selection variables, which the envelope does not depend on.\<close>

definition analyzePrompt ::
  "(string \<Rightarrow> jsval option) \<Rightarrow> (string \<Rightarrow> string \<Rightarrow> js_error + http_response) \<Rightarrow>
   string \<Rightarrow> js_error + string \<Rightarrow> envelope" where
  "analyzePrompt JSON_parse fetch apiKey screenshot =
     (if apiKey = [] \<or> apiKey = ''YOUR_DEFAULT_API_KEY_HERE'' then
        Failure ''No API key configured. Please contact the developer or set your own OpenRouter API key.''
      else
        (case screenshot of
           Inl e \<Rightarrow> Failure (message e)
         | Inr imageDataUrl \<Rightarrow>
             (case analyzeScreenshotWithVision JSON_parse fetch imageDataUrl apiKey of
                Inl e \<Rightarrow> Failure (message e)
              | Inr analysis \<Rightarrow>
                  (case get_prop analysis ''prompt'' of
                     Inl e \<Rightarrow> Failure (message e)
                   | Inr prompt \<Rightarrow>
                       Success (Obj (set_prop (spread_props analysis) ''screenText'' prompt))))))"

text \<open>The fields the handler needs from the backend's JSON body: a non-empty string at
  \<^verbatim>\<open>choices[0].message.content\<close>.\<close>

definition expected_content :: "jsval \<Rightarrow> string option" where
  "expected_content data =
     (case response_content data of
        Inr (Str text) \<Rightarrow> (if text = [] then None else Some text)
      | other \<Rightarrow> None)"

text \<open>All pieces of a text that start with an opening brace and end with a closing brace;
  a text contains no parsable JSON object when \<^verbatim>\<open>JSON.parse\<close> throws on each of them.\<close>

definition brace_spans :: "string \<Rightarrow> string list" where
  "brace_spans s =
     filter (\<lambda>t. t \<noteq> [] \<and> hd t = CHR ''{'' \<and> last t = CHR ''}'')
       (concat (map prefixes (suffixes s)))"

definition no_parsable_object :: "(string \<Rightarrow> jsval option) \<Rightarrow> string \<Rightarrow> bool" where
  "no_parsable_object JSON_parse content =
     (\<forall>t \<in> set (brace_spans content). JSON_parse t = None)"

text \<open>A stand-in for \<^verbatim>\<open>JSON.parse\<close>, defined on one body text only and throwing on every
  other text; it is used to run the handler on a concrete response.\<close>

definition sample_parse :: "string \<Rightarrow> jsval option" where
  "sample_parse s =
     (if s = ''reply''
      then Some (Obj [(''choices'',
                       Arr [Obj [(''message'',
                                  Obj [(''role'', Str ''assistant''),
                                       (''content'', Str ''none {x}'')])]])])
      else None)"

text \<open>A backend that answers every request with the same OK response.\<close>

definition sample_fetch :: "string \<Rightarrow> string \<Rightarrow> js_error + http_response" where
  "sample_fetch imageDataUrl apiKey = Inr \<lparr>ok = True, status = 200, body = ''reply''\<rparr>"

section \<open>Matching a capture source to the active display (electron/main.ts)\<close>

text \<open>
  The part of \<^verbatim>\<open>captureScreenshot\<close> between the enumeration of the sources and the use
  of \<^verbatim>\<open>targetSource.thumbnail\<close>. A source carries its \<^verbatim>\<open>id\<close>, \<^verbatim>\<open>name\<close>,
  \<^verbatim>\<open>display_id\<close> (the empty string when the platform gives none) and the size of its
  thumbnail; a display its \<^verbatim>\<open>id\<close> and \<^verbatim>\<open>size\<close>. The displays, the active display and
  the id of the primary display come from Electron's \<^verbatim>\<open>screen\<close> module and are
  parameters, as are the operations on doubles that method 5 uses.
\<close>

record capture_source =
  source_id :: string
  source_name :: string
  source_display_id :: string
  thumb_width :: nat
  thumb_height :: nat

record display =
  disp_id :: int
  disp_width :: nat
  disp_height :: nat

text \<open>\<^verbatim>\<open>matchMethod\<close>: the program keeps a text and tests \<^verbatim>\<open>startsWith('default')\<close>; only
  the initial text, \<open>DefaultFirst\<close>, starts so.\<close>

datatype match_method =
    DefaultFirst
  | DisplayIdMatch
  | SourceIdScreenNumber
  | ArrayIndex
  | PrimaryHeuristic
  | ScreenName int
  | AspectRatio

text \<open>\<^verbatim>\<open>xs.findIndex(p)\<close>: the first position where \<open>p\<close> holds, or -1.\<close>

fun findIndex_from :: "('a \<Rightarrow> bool) \<Rightarrow> 'a list \<Rightarrow> int \<Rightarrow> int" where
  "findIndex_from p [] i = - 1"
| "findIndex_from p (x # xs) i = (if p x then i else findIndex_from p xs (i + 1))"

definition findIndex :: "('a \<Rightarrow> bool) \<Rightarrow> 'a list \<Rightarrow> int" where
  "findIndex p xs = findIndex_from p xs 0"

text \<open>\<^verbatim>\<open>xs[i]\<close> for a non-negative index; \<open>None\<close> is \<^verbatim>\<open>undefined\<close>.\<close>

definition nth_opt :: "'a list \<Rightarrow> nat \<Rightarrow> 'a option" where
  "nth_opt xs i = (if i < length xs then Some (xs ! i) else None)"

definition is_digit :: "char \<Rightarrow> bool" where
  "is_digit c = (c \<in> set ''0123456789'')"

definition digit_val :: "char \<Rightarrow> nat" where
  "digit_val c =
     (case map_of (zip ''0123456789'' [0, 1, 2, 3, 4, 5, 6, 7, 8, 9]) c of
        None \<Rightarrow> 0
      | Some d \<Rightarrow> d)"

text \<open>\<^verbatim>\<open>parseInt(digits, 10)\<close> on a run of decimal digits (exact; the program's number is a
  double).\<close>

definition parseInt10 :: "string \<Rightarrow> nat" where
  "parseInt10 digits = foldl (\<lambda>acc c. 10 * acc + digit_val c) 0 digits"

text \<open>\<^verbatim>\<open>/screen:(\d+):/\<close> matched at the start of \<open>s\<close>: the literal, then the whole run of
  digits, at least one, then a colon. The value is that of the captured digits.\<close>

definition match_screen_at :: "string \<Rightarrow> nat option" where
  "match_screen_at s =
     (if prefix ''screen:'' s then
        (let rest = drop 7 s;
             digits = takeWhile is_digit rest;
             after = dropWhile is_digit rest
         in if digits \<noteq> [] \<and> prefix '':'' after then Some (parseInt10 digits) else None)
      else None)"

text \<open>\<^verbatim>\<open>source.id.match(/screen:(\d+):/)\<close>: the leftmost position where the pattern
  matches.\<close>

fun match_screen :: "string \<Rightarrow> nat option" where
  "match_screen [] = None"
| "match_screen (c # cs) =
     (case match_screen_at (c # cs) of Some n \<Rightarrow> Some n | None \<Rightarrow> match_screen cs)"

text \<open>Method 1: the first source whose \<^verbatim>\<open>display_id\<close> is not empty and equals the text of
  the active display's id.\<close>

definition displayIdMatch :: "capture_source list \<Rightarrow> display \<Rightarrow> capture_source option" where
  "displayIdMatch sources activeDisplay =
     find (\<lambda>source. source_display_id source \<noteq> [] \<and>
                     source_display_id source = number_toString (disp_id activeDisplay))
          sources"

text \<open>Method 2: the first source whose id holds a screen number equal to the index of the
  active display.\<close>

definition sourceWithMatchingIndex :: "capture_source list \<Rightarrow> int \<Rightarrow> capture_source option" where
  "sourceWithMatchingIndex sources activeDisplayIndex =
     find (\<lambda>source. case match_screen (source_id source) of
                       None \<Rightarrow> False
                     | Some screenNum \<Rightarrow> int screenNum = activeDisplayIndex)
          sources"

text \<open>Method 4, primary display: the first source with one of the three name patterns.\<close>

definition primaryNameMatch :: "capture_source list \<Rightarrow> capture_source option" where
  "primaryNameMatch sources =
     find (\<lambda>s. includes_str (source_name s) ''Screen 1'' \<or>
                includes_str (source_name s) ''Entire Screen'' \<or>
                includes_str (toLowerCase (source_name s)) ''primary'')
          sources"

text \<open>Method 4, another display: the first source whose name holds
  \<^verbatim>\<open>Screen ${displayNum}\<close>.\<close>

definition secondarySource :: "capture_source list \<Rightarrow> int \<Rightarrow> capture_source option" where
  "secondarySource sources displayNum =
     find (\<lambda>s. includes_str (source_name s) (''Screen '' @ number_toString displayNum)) sources"

text \<open>The body of the loop of method 5, on the pair (\<^verbatim>\<open>bestMatch\<close>, \<^verbatim>\<open>bestDiff\<close>):
  \<^verbatim>\<open>thumbAspect\<close>, \<^verbatim>\<open>diff\<close> and the test \<^verbatim>\<open>diff < bestDiff\<close>, in the program's doubles.\<close>

definition aspect_step ::
  "'f double_ops \<Rightarrow> 'f \<Rightarrow> capture_source \<times> 'f \<Rightarrow> capture_source \<Rightarrow> capture_source \<times> 'f" where
  "aspect_step ops displayAspect best source =
     (let thumbAspect = d_div ops (int (thumb_width source)) (int (thumb_height source));
          diff = d_absdiff ops thumbAspect displayAspect
      in if d_less ops diff (snd best) then (source, diff) else best)"

text \<open>Method 5 for a non-empty list: \<^verbatim>\<open>displayAspect\<close>, the loop from
  (\<^verbatim>\<open>sources[0]\<close>, \<^verbatim>\<open>Infinity\<close>), then \<^verbatim>\<open>bestDiff < 0.1\<close>.\<close>

definition aspectRatioMatch ::
  "'f double_ops \<Rightarrow> capture_source list \<Rightarrow> display \<Rightarrow> capture_source option" where
  "aspectRatioMatch ops sources activeDisplay =
     (case sources of
        [] \<Rightarrow> None
      | first # others \<Rightarrow>
          (let displayAspect = d_div ops (int (disp_width activeDisplay))
                                 (int (disp_height activeDisplay));
               best = foldl (aspect_step ops displayAspect) (first, d_infinity ops) sources
           in if d_less ops (snd best) (d_tenth ops) then Some (fst best) else None))"

text \<open>The state of the selection: \<^verbatim>\<open>targetSource\<close> (\<open>None\<close> is \<^verbatim>\<open>undefined\<close>) and
  \<^verbatim>\<open>matchMethod\<close>. Each method is one block of the program, in its order.\<close>

type_synonym selection = "capture_source option \<times> match_method"

definition method1 :: "capture_source list \<Rightarrow> display \<Rightarrow> selection \<Rightarrow> selection" where
  "method1 sources activeDisplay st =
     (case displayIdMatch sources activeDisplay of
        None \<Rightarrow> st
      | Some source \<Rightarrow> (Some source, DisplayIdMatch))"

definition method2 :: "capture_source list \<Rightarrow> int \<Rightarrow> selection \<Rightarrow> selection" where
  "method2 sources activeDisplayIndex st =
     (if snd st = DefaultFirst then
        (case sourceWithMatchingIndex sources activeDisplayIndex of
           None \<Rightarrow> st
         | Some source \<Rightarrow> (Some source, SourceIdScreenNumber))
      else st)"

definition method3 :: "capture_source list \<Rightarrow> display list \<Rightarrow> int \<Rightarrow> selection \<Rightarrow> selection" where
  "method3 sources allDisplays activeDisplayIndex st =
     (if snd st = DefaultFirst \<and> length sources = length allDisplays \<and> 0 \<le> activeDisplayIndex
      then (nth_opt sources (nat activeDisplayIndex), ArrayIndex)
      else st)"

definition method4 ::
  "capture_source list \<Rightarrow> display \<Rightarrow> int \<Rightarrow> int \<Rightarrow> selection \<Rightarrow> selection" where
  "method4 sources activeDisplay primaryDisplayId activeDisplayIndex st =
     (if snd st = DefaultFirst then
        (if disp_id activeDisplay = primaryDisplayId then
           ((case primaryNameMatch sources of
               None \<Rightarrow> nth_opt sources 0
             | Some source \<Rightarrow> Some source), PrimaryHeuristic)
         else
           (let displayNum = activeDisplayIndex + 1
            in case secondarySource sources displayNum of
                 None \<Rightarrow> st
               | Some source \<Rightarrow> (Some source, ScreenName displayNum)))
      else st)"

definition method5 ::
  "'f double_ops \<Rightarrow> capture_source list \<Rightarrow> display \<Rightarrow> selection \<Rightarrow> selection" where
  "method5 ops sources activeDisplay st =
     (if snd st = DefaultFirst \<and> 1 < length sources then
        (case aspectRatioMatch ops sources activeDisplay of
           None \<Rightarrow> st
         | Some source \<Rightarrow> (Some source, AspectRatio))
      else st)"

text \<open>The selection as \<^verbatim>\<open>captureScreenshot\<close> makes it: the throw on an empty list, the five
  blocks in order on the initial state (\<^verbatim>\<open>sources[0]\<close>, default), and the first use of
  \<^verbatim>\<open>targetSource\<close>, a \<^verbatim>\<open>TypeError\<close> were it undefined.\<close>

definition selectSource ::
  "'f double_ops \<Rightarrow> display list \<Rightarrow> display \<Rightarrow> int \<Rightarrow> capture_source list \<Rightarrow>
   js_error + capture_source \<times> match_method" where
  "selectSource ops allDisplays activeDisplay primaryDisplayId sources =
     (if sources = [] then Inl (Error ''No screen sources found'')
      else
        (let activeDisplayIndex = findIndex (\<lambda>d. disp_id d = disp_id activeDisplay) allDisplays;
             st0 = (nth_opt sources 0, DefaultFirst);
             st1 = method1 sources activeDisplay st0;
             st2 = method2 sources activeDisplayIndex st1;
             st3 = method3 sources allDisplays activeDisplayIndex st2;
             st4 = method4 sources activeDisplay primaryDisplayId activeDisplayIndex st3;
             st5 = method5 ops sources activeDisplay st4
         in case fst st5 of
              None \<Rightarrow> Inl (TypeError ''Cannot read properties of undefined'')
            | Some targetSource \<Rightarrow> Inr (targetSource, snd st5)))"

text \<open>The chain as the specification words it, for comparison with \<open>selectSource\<close>: six
  heuristics in order, the first that succeeds decides, and heuristic 4 is the matching of
  names only (the primary display's patterns for the primary display, the 1-based ordinal
  for another one).\<close>

definition specified_selection ::
  "'f double_ops \<Rightarrow> display list \<Rightarrow> display \<Rightarrow> int \<Rightarrow> capture_source list \<Rightarrow> capture_source option" where
  "specified_selection ops allDisplays activeDisplay primaryDisplayId sources =
     (let activeDisplayIndex = findIndex (\<lambda>d. disp_id d = disp_id activeDisplay) allDisplays
      in case displayIdMatch sources activeDisplay of
           Some s \<Rightarrow> Some s
         | None \<Rightarrow>
        (case sourceWithMatchingIndex sources activeDisplayIndex of
           Some s \<Rightarrow> Some s
         | None \<Rightarrow>
        (if length sources = length allDisplays \<and> 0 \<le> activeDisplayIndex
         then nth_opt sources (nat activeDisplayIndex)
         else
        (case (if disp_id activeDisplay = primaryDisplayId
               then primaryNameMatch sources
               else secondarySource sources (activeDisplayIndex + 1)) of
           Some s \<Rightarrow> Some s
         | None \<Rightarrow>
        (case aspectRatioMatch ops sources activeDisplay of
           Some s \<Rightarrow> Some s
         | None \<Rightarrow> nth_opt sources 0)))))"

text \<open>Two displays and three sources whose ids and names say nothing about the displays;
  the second thumbnail has the shape of the primary display.\<close>

definition two_displays :: "display list" where
  "two_displays =
     [\<lparr>disp_id = 1, disp_width = 1920, disp_height = 1080\<rparr>,
      \<lparr>disp_id = 2, disp_width = 1280, disp_height = 1024\<rparr>]"

definition three_sources :: "capture_source list" where
  "three_sources =
     [\<lparr>source_id = ''screen:529:0'', source_name = ''Bildschirm A'', source_display_id = [],
       thumb_width = 1280, thumb_height = 1024\<rparr>,
      \<lparr>source_id = ''screen:530:0'', source_name = ''Bildschirm B'', source_display_id = [],
       thumb_width = 1920, thumb_height = 1080\<rparr>,
      \<lparr>source_id = ''screen:531:0'', source_name = ''Bildschirm C'', source_display_id = [],
       thumb_width = 1024, thumb_height = 768\<rparr>]"

section \<open>Speech capture controller: properties\<close>

lemma closeExistingPopup_flags:
  "isSpeechRecording (closeExistingPopup s) = isSpeechRecording s"
  "speechShouldStop (closeExistingPopup s) = speechShouldStop s"
  "speechPopupGen (closeExistingPopup s) = speechPopupGen s"
  by (simp_all add: closeExistingPopup_def log_effect_def split: option.splits)

lemma closeExistingPicker_flags:
  "isSpeechRecording (closeExistingPicker s) = isSpeechRecording s"
  "speechShouldStop (closeExistingPicker s) = speechShouldStop s"
  "speechPopupGen (closeExistingPicker s) = speechPopupGen s"
  by (simp_all add: closeExistingPicker_def log_effect_def split: option.splits)

text \<open>
  C5. A close event of a speech popup whose captured generation differs from the current
  counter (the popup was replaced by a newer one) leaves \<open>isSpeechRecording\<close> and
  \<open>speechShouldStop\<close> as they were, and the counter too; a close event whose captured
  generation equals the counter sets both flags to false. So the flags are reset by the
  handler exactly of the popup of the current generation.
\<close>

theorem speechPopupClosed_generation_guard:
  "(gen \<noteq> speechPopupGen s \<longrightarrow>
      isSpeechRecording (speechPopupClosed gen s) = isSpeechRecording s \<and>
      speechShouldStop (speechPopupClosed gen s) = speechShouldStop s \<and>
      speechPopupGen (speechPopupClosed gen s) = speechPopupGen s) \<and>
   (gen = speechPopupGen s \<longrightarrow>
      isSpeechRecording (speechPopupClosed gen s) = False \<and>
      speechShouldStop (speechPopupClosed gen s) = False) \<and>
   speechPopupGen (createSpeechPopupWindow s) = speechPopupGen s + 1 \<and>
   isSpeechRecording (speechPopupClosed (speechPopupGen s) (createSpeechPopupWindow s))
     = isSpeechRecording s \<and>
   speechShouldStop (speechPopupClosed (speechPopupGen s) (createSpeechPopupWindow s))
     = speechShouldStop s"
  by (simp add: speechPopupClosed_def createSpeechPopupWindow_def Let_def log_effect_def
      closeExistingPopup_flags)

theorem speechPopupClosed_generation_guard_witness:
  "speechPopupGen (run [SpeechPress ready_env, ClosePopup, SpeechPress ready_env] initial_state) = 2 \<and>
   isSpeechRecording (run [SpeechPress ready_env, ClosePopup, SpeechPress ready_env] initial_state) \<and>
   isSpeechRecording (speechPopupClosed 1
      (run [SpeechPress ready_env, ClosePopup, SpeechPress ready_env] initial_state)) \<and>
   speechShouldStop (speechPopupClosed 1
      (run [SpeechPress ready_env, ClosePopup, SpeechPress ready_env] initial_state)) = False \<and>
   isSpeechRecording (speechPopupClosed 2
      (run [SpeechPress ready_env, ClosePopup, SpeechPress ready_env] initial_state)) = False"
  using speechPopupClosed_generation_guard
    [of 1 "run [SpeechPress ready_env, ClosePopup, SpeechPress ready_env] initial_state"]
    speechPopupClosed_generation_guard
    [of 2 "run [SpeechPress ready_env, ClosePopup, SpeechPress ready_env] initial_state"]
  by (simp add: run_def initial_state_def ready_env_def handleSpeechShortcutPress_def
      closePopup_def createSpeechPopupWindow_def closeExistingPopup_def closeExistingPicker_def
      window_gone_def log_effect_def Let_def)

text \<open>
  C6 (the code does not do this). The state below has \<open>isSpeechRecording\<close> true and no
  popup window: it is what the main process holds after a press, a \<^verbatim>\<open>close-popup\<close>, a
  second press, and then the delayed \<^verbatim>\<open>closed\<close> event of the first popup. The next
  press returns at the first statement of \<^verbatim>\<open>handleSpeechShortcutPress\<close>
  (\<^verbatim>\<open>if (isSpeechRecording) return\<close>), before the check that would reset the state: the
  state is unchanged, the recording flag stays set and no popup is created.
\<close>

theorem handleSpeechShortcutPress_desync_not_recovered:
  "isSpeechRecording (run [SpeechPress ready_env, ClosePopup, SpeechPress ready_env,
        SpeechPopupClosed 1] initial_state) = True \<and>
   popupWindow (run [SpeechPress ready_env, ClosePopup, SpeechPress ready_env,
        SpeechPopupClosed 1] initial_state) = None \<and>
   handleSpeechShortcutPress env (run [SpeechPress ready_env, ClosePopup, SpeechPress ready_env,
        SpeechPopupClosed 1] initial_state)
     = run [SpeechPress ready_env, ClosePopup, SpeechPress ready_env,
        SpeechPopupClosed 1] initial_state"
  by (simp add: run_def initial_state_def ready_env_def handleSpeechShortcutPress_def
      closePopup_def createSpeechPopupWindow_def closeExistingPopup_def closeExistingPicker_def
      speechPopupClosed_def window_gone_def log_effect_def Let_def)

lemma press_while_recording: "isSpeechRecording s \<Longrightarrow> handleSpeechShortcutPress env s = s"
  by (simp add: handleSpeechShortcutPress_def)

lemma presses_while_recording:
  "isSpeechRecording s \<Longrightarrow> foldl step s (map SpeechPress envs) = s"
  by (induction envs) (simp_all add: press_while_recording)

text \<open>
  C7. A speech-hotkey press that arrives while \<open>isSpeechRecording\<close> is true and the
  recording popup exists changes nothing: the state after the press is the state before
  it, so the recording flag, \<open>speechShouldStop\<close>, the generation counter, the popup
  reference and the list of effects (no window created or closed, no key watcher started)
  are all as they were. The same holds for any number of repeated presses.
\<close>

theorem handleSpeechShortcutPress_repeat_noop:
  assumes "isSpeechRecording s" and "window_live (popupWindow s)"
  shows "handleSpeechShortcutPress env s = s \<and>
         speechShouldStop (handleSpeechShortcutPress env s) = speechShouldStop s \<and>
         speechPopupGen (handleSpeechShortcutPress env s) = speechPopupGen s \<and>
         popupWindow (handleSpeechShortcutPress env s) = popupWindow s \<and>
         effects (handleSpeechShortcutPress env s) = effects s \<and>
         run (map SpeechPress envs) s = s"
  using assms(1) by (simp add: press_while_recording presses_while_recording run_def)

theorem handleSpeechShortcutPress_repeat_noop_witness:
  "isSpeechRecording (run [SpeechPress ready_env, KeyReleased] initial_state) \<and>
   window_live (popupWindow (run [SpeechPress ready_env, KeyReleased] initial_state)) \<and>
   speechShouldStop (run [SpeechPress ready_env, KeyReleased] initial_state) \<and>
   speechPopupGen (run [SpeechPress ready_env, KeyReleased] initial_state) = 1 \<and>
   handleSpeechShortcutPress ready_env (run [SpeechPress ready_env, KeyReleased] initial_state)
     = run [SpeechPress ready_env, KeyReleased] initial_state"
proof -
  let ?s = "run [SpeechPress ready_env, KeyReleased] initial_state"
  have rec: "isSpeechRecording ?s"
    by (simp add: run_def initial_state_def ready_env_def handleSpeechShortcutPress_def
        createSpeechPopupWindow_def closeExistingPopup_def keyReleased_def
        window_gone_def log_effect_def Let_def)
  have live: "window_live (popupWindow ?s)"
    by (simp add: run_def initial_state_def ready_env_def handleSpeechShortcutPress_def
        createSpeechPopupWindow_def closeExistingPopup_def keyReleased_def
        window_gone_def window_live_def log_effect_def Let_def)
  have stop: "speechShouldStop ?s"
    by (simp add: run_def initial_state_def ready_env_def handleSpeechShortcutPress_def
        createSpeechPopupWindow_def closeExistingPopup_def keyReleased_def
        window_gone_def log_effect_def Let_def)
  have gen: "speechPopupGen ?s = 1"
    by (simp add: run_def initial_state_def ready_env_def handleSpeechShortcutPress_def
        createSpeechPopupWindow_def closeExistingPopup_def keyReleased_def
        window_gone_def log_effect_def Let_def)
  from handleSpeechShortcutPress_repeat_noop [OF rec live, of ready_env "[]"]
  have "handleSpeechShortcutPress ready_env ?s = ?s" by simp
  with rec live stop gen show ?thesis by simp
qed

text \<open>
  C8. \<^verbatim>\<open>should-stop-speech\<close> returns true exactly when \<open>speechShouldStop\<close> was set at
  the call; after the call the flag is false and nothing else has changed; and of two calls
  in a row, with no event between them, at most one returns true.
\<close>

theorem shouldStopSpeech_poll_and_clear:
  "fst (shouldStopSpeech s) = speechShouldStop s \<and>
   speechShouldStop (snd (shouldStopSpeech s)) = False \<and>
   snd (shouldStopSpeech s) = s\<lparr>speechShouldStop := False\<rparr> \<and>
   (fst (shouldStopSpeech s) \<and> fst (shouldStopSpeech (snd (shouldStopSpeech s)))) = False"
  by (cases "speechShouldStop s") (simp_all add: shouldStopSpeech_def)

theorem shouldStopSpeech_poll_and_clear_witness:
  "fst (shouldStopSpeech (run [SpeechPress ready_env, KeyReleased] initial_state)) = True \<and>
   fst (shouldStopSpeech (snd (shouldStopSpeech
      (run [SpeechPress ready_env, KeyReleased] initial_state)))) = False"
  using shouldStopSpeech_poll_and_clear [of "run [SpeechPress ready_env, KeyReleased] initial_state"]
  by (simp add: run_def initial_state_def ready_env_def handleSpeechShortcutPress_def
      createSpeechPopupWindow_def closeExistingPopup_def keyReleased_def shouldStopSpeech_def
      window_gone_def log_effect_def Let_def)

text \<open>
  C10. \<^verbatim>\<open>close-popup\<close> sets \<open>isSpeechRecording\<close> and \<open>speechShouldStop\<close> to false in every
  state and never reads or changes the generation counter. In the run press, close-popup,
  press, the session of generation 2 is recording: the late \<^verbatim>\<open>closed\<close> event of the
  generation-1 popup leaves its recording flag set (the guard), while a \<^verbatim>\<open>close-popup\<close>
  arriving at the same point clears it.
\<close>

theorem closePopup_bypasses_generation_guard:
  "isSpeechRecording (closePopup s) = False \<and>
   speechShouldStop (closePopup s) = False \<and>
   speechPopupGen (closePopup s) = speechPopupGen s \<and>
   speechPopupGen (run [SpeechPress ready_env, ClosePopup, SpeechPress ready_env] initial_state) = 2 \<and>
   isSpeechRecording (run [SpeechPress ready_env, ClosePopup, SpeechPress ready_env] initial_state)
     = True \<and>
   isSpeechRecording (run [SpeechPress ready_env, ClosePopup, SpeechPress ready_env,
      SpeechPopupClosed 1] initial_state) = True \<and>
   isSpeechRecording (run [SpeechPress ready_env, ClosePopup, SpeechPress ready_env,
      ClosePopup] initial_state) = False"
proof -
  have always: "isSpeechRecording (closePopup s) = False"
    "speechShouldStop (closePopup s) = False"
    "speechPopupGen (closePopup s) = speechPopupGen s"
    by (simp_all add: closePopup_def Let_def closeExistingPopup_flags closeExistingPicker_flags)
  have run2: "speechPopupGen
      (run [SpeechPress ready_env, ClosePopup, SpeechPress ready_env] initial_state) = 2"
    "isSpeechRecording
      (run [SpeechPress ready_env, ClosePopup, SpeechPress ready_env] initial_state) = True"
    by (simp_all add: run_def initial_state_def ready_env_def handleSpeechShortcutPress_def
        closePopup_def createSpeechPopupWindow_def closeExistingPopup_def
        closeExistingPicker_def window_gone_def log_effect_def Let_def)
  have stale: "isSpeechRecording (run [SpeechPress ready_env, ClosePopup, SpeechPress ready_env,
      SpeechPopupClosed 1] initial_state) = True"
    by (simp add: run_def initial_state_def ready_env_def handleSpeechShortcutPress_def
        closePopup_def createSpeechPopupWindow_def closeExistingPopup_def
        closeExistingPicker_def speechPopupClosed_def window_gone_def log_effect_def Let_def)
  have bypass: "isSpeechRecording (run [SpeechPress ready_env, ClosePopup, SpeechPress ready_env,
      ClosePopup] initial_state) = False"
    by (simp add: run_def initial_state_def ready_env_def handleSpeechShortcutPress_def
        closePopup_def createSpeechPopupWindow_def closeExistingPopup_def
        closeExistingPicker_def window_gone_def log_effect_def Let_def)
  from always run2 stale bypass show ?thesis by blast
qed

theorem closePopup_bypasses_generation_guard_witness:
  "isSpeechRecording (closePopup
      (run [SpeechPress ready_env, KeyReleased] initial_state)) = False \<and>
   speechShouldStop (closePopup
      (run [SpeechPress ready_env, KeyReleased] initial_state)) = False \<and>
   speechPopupGen (closePopup
      (run [SpeechPress ready_env, KeyReleased] initial_state)) = 1"
  using closePopup_bypasses_generation_guard
    [of "run [SpeechPress ready_env, KeyReleased] initial_state"]
  by (simp add: run_def initial_state_def ready_env_def handleSpeechShortcutPress_def
      createSpeechPopupWindow_def closeExistingPopup_def keyReleased_def
      window_gone_def log_effect_def Let_def)

section \<open>Selection overlay: properties\<close>

lemma moves_after_mouse_down:
  "isSelecting st \<Longrightarrow>
   foldl (\<lambda>st e. handleMouseMove e st) st moves
     = st\<lparr>currentPoint := last (currentPoint st # moves)\<rparr>"
  by (induction moves arbitrary: st) (simp_all add: handleMouseMove_def)

text \<open>
  C9. For every completed drag gesture (button down at \<open>p0\<close>, any moves, button up), the
  overlay reports a rectangle to the main process exactly when the width and the height of
  the selection are both at least 10; the rectangle reported is then the selection, and in
  every other case (a zero-area selection included) nothing is reported and the two points
  are reset.
\<close>

theorem handleMouseUp_reports_iff_min_size:
  "(snd (drag p0 moves s) \<noteq> None) =
     (10 \<le> \<bar>pt_x (last (p0 # moves)) - pt_x p0\<bar> \<and> 10 \<le> \<bar>pt_y (last (p0 # moves)) - pt_y p0\<bar>) \<and>
   snd (drag p0 moves s) =
     (if 10 \<le> \<bar>pt_x (last (p0 # moves)) - pt_x p0\<bar> \<and> 10 \<le> \<bar>pt_y (last (p0 # moves)) - pt_y p0\<bar>
      then Some \<lparr>sel_x = min (pt_x p0) (pt_x (last (p0 # moves))),
                 sel_y = min (pt_y p0) (pt_y (last (p0 # moves))),
                 sel_width = \<bar>pt_x (last (p0 # moves)) - pt_x p0\<bar>,
                 sel_height = \<bar>pt_y (last (p0 # moves)) - pt_y p0\<bar>\<rparr>
      else None) \<and>
   isSelecting (fst (drag p0 moves s)) = False \<and>
   snd (handleMouseUp (s\<lparr>isSelecting := False\<rparr>)) = None"
proof -
  have st: "foldl (\<lambda>st e. handleMouseMove e st) (handleMouseDown p0 s) moves
      = s\<lparr>isSelecting := True, startPoint := p0, currentPoint := last (p0 # moves)\<rparr>"
    using moves_after_mouse_down [of "handleMouseDown p0 s" moves]
    by (simp add: handleMouseDown_def)
  show ?thesis
    unfolding drag_def st
    by (simp add: handleMouseUp_def getSelectionBounds_def Let_def)
qed

theorem handleMouseUp_reports_iff_min_size_witness:
  "snd (drag \<lparr>pt_x = 100, pt_y = 100\<rparr> [\<lparr>pt_x = 150, pt_y = 120\<rparr>, \<lparr>pt_x = 300, pt_y = 250\<rparr>]
          \<lparr>isSelecting = False, startPoint = \<lparr>pt_x = 0, pt_y = 0\<rparr>,
            currentPoint = \<lparr>pt_x = 0, pt_y = 0\<rparr>\<rparr>)
     = Some \<lparr>sel_x = 100, sel_y = 100, sel_width = 200, sel_height = 150\<rparr> \<and>
   snd (drag \<lparr>pt_x = 100, pt_y = 100\<rparr> [\<lparr>pt_x = 300, pt_y = 109\<rparr>]
          \<lparr>isSelecting = False, startPoint = \<lparr>pt_x = 0, pt_y = 0\<rparr>,
            currentPoint = \<lparr>pt_x = 0, pt_y = 0\<rparr>\<rparr>) = None \<and>
   snd (drag \<lparr>pt_x = 100, pt_y = 100\<rparr> []
          \<lparr>isSelecting = False, startPoint = \<lparr>pt_x = 0, pt_y = 0\<rparr>,
            currentPoint = \<lparr>pt_x = 0, pt_y = 0\<rparr>\<rparr>) = None"
  using handleMouseUp_reports_iff_min_size
      [of "\<lparr>pt_x = 100, pt_y = 100\<rparr>" "[\<lparr>pt_x = 150, pt_y = 120\<rparr>, \<lparr>pt_x = 300, pt_y = 250\<rparr>]"]
    handleMouseUp_reports_iff_min_size
      [of "\<lparr>pt_x = 100, pt_y = 100\<rparr>" "[\<lparr>pt_x = 300, pt_y = 109\<rparr>]"]
    handleMouseUp_reports_iff_min_size
      [of "\<lparr>pt_x = 100, pt_y = 100\<rparr>" "[]"]
  by simp

section \<open>Crop mapping: properties\<close>

lemma clamped_origin:
  assumes "0 < d"
  shows "\<exists>x. math_max (Fin 0) (math_min c (Fin (d - 1))) = Fin x \<and> 0 \<le> x \<and> x \<le> d - 1"
  using assms by (cases c) simp_all

lemma clamped_size:
  "math_min c (minus_from d (Fin x)) = NegInf \<or>
   (\<exists>w. math_min c (minus_from d (Fin x)) = Fin w \<and> x + w \<le> d)"
  by (cases c) simp_all

lemma greater_zero_iff: "greater_zero v = (at_most_zero v = False)"
  by (cases v) auto

lemma greater_zero_Fin: "greater_zero v \<Longrightarrow> v \<noteq> PosInf \<Longrightarrow> \<exists>w. v = Fin w \<and> 0 < w"
  by (cases v) simp_all

lemma nonpositive_area:
  fixes w h :: int
  assumes "w * h \<le> 0"
  shows "w \<le> 0 \<or> h \<le> 0"
proof (rule ccontr)
  assume "\<not> (w \<le> 0 \<or> h \<le> 0)"
  then have "0 < w" and "0 < h" by simp_all
  then have "0 < w * h" by simp
  with assms show False by simp
qed

text \<open>
  C1. For a selection \<open>b\<close>, a stored display size and a thumbnail \<open>iw \<times> ih\<close>, all four
  dimensions positive, and whatever the program's doubles make of the quotients and
  products, the crop rectangle computed by \<^verbatim>\<open>captureScreenshot\<close> and by
  \<^verbatim>\<open>cropStoredScreenshot\<close> has
  \<^item> each field equal to the rounded product of the selection's field and the quotient of
    the thumbnail's by the display's dimension, the origin then clamped into
    \<open>[0, dimension - 1]\<close> and the size cut to at most \<open>dimension - origin\<close>;
  \<^item> an origin that is an integer in \<open>[0, dimension - 1]\<close> and a far edge (origin plus
    size) at or before the thumbnail's width and height, so it lies inside the thumbnail;
  \<^item> and when its area (width times height) is zero or negative, or a side is minus
    infinity, both operations return the full image; the two operations agree, and a
    rectangle that is cropped to has integer fields and positive width and height.
\<close>

theorem crop_rect_inside_thumbnail:
  assumes "0 < size_width info" and "0 < size_height info" and "0 < iw" and "0 < ih"
  shows "(let r = safeCropRect ops b (size_width info) (size_height info) iw ih in
           rect_x r = math_max (Fin 0)
             (math_min (d_round ops (d_mul ops (sel_x b) (d_div ops iw (size_width info))))
                       (Fin (iw - 1))) \<and>
           rect_y r = math_max (Fin 0)
             (math_min (d_round ops (d_mul ops (sel_y b) (d_div ops ih (size_height info))))
                       (Fin (ih - 1))) \<and>
           rect_width r =
             math_min (d_round ops (d_mul ops (sel_width b) (d_div ops iw (size_width info))))
                      (minus_from iw (rect_x r)) \<and>
           rect_height r =
             math_min (d_round ops (d_mul ops (sel_height b) (d_div ops ih (size_height info))))
                      (minus_from ih (rect_y r)) \<and>
           (\<exists>x y. rect_x r = Fin x \<and> rect_y r = Fin y \<and>
                  0 \<le> x \<and> x \<le> iw - 1 \<and> 0 \<le> y \<and> y \<le> ih - 1 \<and>
                  (rect_width r = NegInf \<or> (\<exists>w. rect_width r = Fin w \<and> x + w \<le> iw)) \<and>
                  (rect_height r = NegInf \<or> (\<exists>h. rect_height r = Fin h \<and> y + h \<le> ih))) \<and>
           (\<forall>w h. rect_width r = Fin w \<and> rect_height r = Fin h \<and> w * h \<le> 0 \<longrightarrow>
              cropStoredScreenshot ops (Some info) iw ih b = FullImage \<and>
              captureCrop ops (Some b) (Some info) iw ih = FullImage) \<and>
           (rect_width r = NegInf \<or> rect_height r = NegInf \<longrightarrow>
              cropStoredScreenshot ops (Some info) iw ih b = FullImage \<and>
              captureCrop ops (Some b) (Some info) iw ih = FullImage) \<and>
           cropStoredScreenshot ops (Some info) iw ih b
             = captureCrop ops (Some b) (Some info) iw ih \<and>
           (\<forall>c. cropStoredScreenshot ops (Some info) iw ih b = Cropped c \<longrightarrow>
              c = r \<and>
              (\<exists>x y w h. c = \<lparr>rect_x = Fin x, rect_y = Fin y, rect_width = Fin w,
                               rect_height = Fin h\<rparr> \<and>
                          0 \<le> x \<and> 0 < w \<and> x + w \<le> iw \<and>
                          0 \<le> y \<and> 0 < h \<and> y + h \<le> ih)))"
proof -
  let ?r = "safeCropRect ops b (size_width info) (size_height info) iw ih"
  let ?cx = "d_round ops (d_mul ops (sel_x b) (d_div ops iw (size_width info)))"
  let ?cy = "d_round ops (d_mul ops (sel_y b) (d_div ops ih (size_height info)))"
  let ?cw = "d_round ops (d_mul ops (sel_width b) (d_div ops iw (size_width info)))"
  let ?ch = "d_round ops (d_mul ops (sel_height b) (d_div ops ih (size_height info)))"
  have fx: "rect_x ?r = math_max (Fin 0) (math_min ?cx (Fin (iw - 1)))"
    and fy: "rect_y ?r = math_max (Fin 0) (math_min ?cy (Fin (ih - 1)))"
    and fw: "rect_width ?r = math_min ?cw (minus_from iw (rect_x ?r))"
    and fh: "rect_height ?r = math_min ?ch (minus_from ih (rect_y ?r))"
    by (simp_all add: safeCropRect_def Let_def)
  from clamped_origin [OF assms(3), of ?cx] fx
  obtain x where x: "rect_x ?r = Fin x" "0 \<le> x" "x \<le> iw - 1" by auto
  from clamped_origin [OF assms(4), of ?cy] fy
  obtain y where y: "rect_y ?r = Fin y" "0 \<le> y" "y \<le> ih - 1" by auto
  have w: "rect_width ?r = NegInf \<or> (\<exists>w. rect_width ?r = Fin w \<and> x + w \<le> iw)"
    unfolding fw x(1) by (rule clamped_size)
  have h: "rect_height ?r = NegInf \<or> (\<exists>h. rect_height ?r = Fin h \<and> y + h \<le> ih)"
    unfolding fh y(1) by (rule clamped_size)
  from x y w h
  have inside: "\<exists>x y. rect_x ?r = Fin x \<and> rect_y ?r = Fin y \<and>
                  0 \<le> x \<and> x \<le> iw - 1 \<and> 0 \<le> y \<and> y \<le> ih - 1 \<and>
                  (rect_width ?r = NegInf \<or> (\<exists>w. rect_width ?r = Fin w \<and> x + w \<le> iw)) \<and>
                  (rect_height ?r = NegInf \<or> (\<exists>h. rect_height ?r = Fin h \<and> y + h \<le> ih))"
    by blast
  have stored: "cropStoredScreenshot ops (Some info) iw ih b
      = (if at_most_zero (rect_width ?r) \<or> at_most_zero (rect_height ?r)
         then FullImage else Cropped ?r)"
    using assms(3,4) by (simp add: cropStoredScreenshot_def Let_def)
  have captured: "captureCrop ops (Some b) (Some info) iw ih
      = (if at_most_zero (rect_width ?r) \<or> at_most_zero (rect_height ?r)
         then FullImage else Cropped ?r)"
    by (simp add: captureCrop_def Let_def greater_zero_iff)
  have empty: "\<forall>w h. rect_width ?r = Fin w \<and> rect_height ?r = Fin h \<and> w * h \<le> 0 \<longrightarrow>
              cropStoredScreenshot ops (Some info) iw ih b = FullImage \<and>
              captureCrop ops (Some b) (Some info) iw ih = FullImage"
  proof (intro allI impI)
    fix w h
    assume a: "rect_width ?r = Fin w \<and> rect_height ?r = Fin h \<and> w * h \<le> 0"
    then have "w \<le> 0 \<or> h \<le> 0" by (simp add: nonpositive_area)
    with a have "at_most_zero (rect_width ?r) \<or> at_most_zero (rect_height ?r)" by auto
    then show "cropStoredScreenshot ops (Some info) iw ih b = FullImage \<and>
              captureCrop ops (Some b) (Some info) iw ih = FullImage"
      unfolding stored captured by simp
  qed
  have neginf: "rect_width ?r = NegInf \<or> rect_height ?r = NegInf \<longrightarrow>
              cropStoredScreenshot ops (Some info) iw ih b = FullImage \<and>
              captureCrop ops (Some b) (Some info) iw ih = FullImage"
  proof
    assume "rect_width ?r = NegInf \<or> rect_height ?r = NegInf"
    then have "at_most_zero (rect_width ?r) \<or> at_most_zero (rect_height ?r)" by auto
    then show "cropStoredScreenshot ops (Some info) iw ih b = FullImage \<and>
              captureCrop ops (Some b) (Some info) iw ih = FullImage"
      unfolding stored captured by simp
  qed
  have same: "cropStoredScreenshot ops (Some info) iw ih b
      = captureCrop ops (Some b) (Some info) iw ih"
    unfolding stored captured ..
  have cropped: "\<forall>c. cropStoredScreenshot ops (Some info) iw ih b = Cropped c \<longrightarrow>
              c = ?r \<and>
              (\<exists>x y w h. c = \<lparr>rect_x = Fin x, rect_y = Fin y, rect_width = Fin w,
                               rect_height = Fin h\<rparr> \<and>
                          0 \<le> x \<and> 0 < w \<and> x + w \<le> iw \<and>
                          0 \<le> y \<and> 0 < h \<and> y + h \<le> ih)"
  proof (intro allI impI)
    fix c
    assume "cropStoredScreenshot ops (Some info) iw ih b = Cropped c"
    then have c: "c = ?r" and pw: "at_most_zero (rect_width ?r) = False"
      and ph: "at_most_zero (rect_height ?r) = False"
      unfolding stored by (auto split: if_splits)
    from pw w obtain k where k: "rect_width ?r = Fin k" "x + k \<le> iw" "0 < k" by auto
    from ph h obtain l where l: "rect_height ?r = Fin l" "y + l \<le> ih" "0 < l" by auto
    have "?r = \<lparr>rect_x = Fin x, rect_y = Fin y, rect_width = Fin k, rect_height = Fin l\<rparr>"
      using x(1) y(1) k(1) l(1) by (cases ?r) simp
    with c x(2) y(2) k l
    show "c = ?r \<and>
              (\<exists>x y w h. c = \<lparr>rect_x = Fin x, rect_y = Fin y, rect_width = Fin w,
                               rect_height = Fin h\<rparr> \<and>
                          0 \<le> x \<and> 0 < w \<and> x + w \<le> iw \<and>
                          0 \<le> y \<and> 0 < h \<and> y + h \<le> ih)"
      by auto
  qed
  from fx fy fw fh inside empty neginf same cropped show ?thesis
    unfolding Let_def by blast
qed

text \<open>A 1920 \<times> 1080 display captured at 3840 \<times> 2160, where every quotient is 2 and
  every product is exact in doubles: the selection (100, 100, 200, 150) maps to
  (200, 200, 400, 300); a product that ends in a half is rounded upwards (100.25 gives
  201); and the selection (1900, 1000, 500, 500), which reaches beyond the display, is
  cut to (3800, 2000, 40, 160).\<close>

theorem crop_rect_inside_thumbnail_witness:
  "cropStoredScreenshot exact_ops
     (Some \<lparr>scaleFactor = 2, bounds_x = 0, bounds_y = 0, size_width = 1920, size_height = 1080,
            displayId = 1\<rparr>) 3840 2160
     \<lparr>sel_x = 100, sel_y = 100, sel_width = 200, sel_height = 150\<rparr>
   = Cropped \<lparr>rect_x = Fin 200, rect_y = Fin 200, rect_width = Fin 400, rect_height = Fin 300\<rparr> \<and>
   captureCrop exact_ops
     (Some \<lparr>sel_x = 100, sel_y = 100, sel_width = 200, sel_height = 150\<rparr>)
     (Some \<lparr>scaleFactor = 2, bounds_x = 0, bounds_y = 0, size_width = 1920, size_height = 1080,
            displayId = 1\<rparr>) 3840 2160
   = Cropped \<lparr>rect_x = Fin 200, rect_y = Fin 200, rect_width = Fin 400, rect_height = Fin 300\<rparr> \<and>
   safeCropRect exact_ops \<lparr>sel_x = 401 / 4, sel_y = 100, sel_width = 200, sel_height = 150\<rparr>
     1920 1080 3840 2160
   = \<lparr>rect_x = Fin 201, rect_y = Fin 200, rect_width = Fin 400, rect_height = Fin 300\<rparr> \<and>
   safeCropRect exact_ops \<lparr>sel_x = 1900, sel_y = 1000, sel_width = 500, sel_height = 500\<rparr>
     1920 1080 3840 2160
   = \<lparr>rect_x = Fin 3800, rect_y = Fin 2000, rect_width = Fin 40, rect_height = Fin 160\<rparr>"
proof -
  let ?info = "\<lparr>scaleFactor = 2, bounds_x = 0, bounds_y = 0, size_width = 1920,
                 size_height = 1080, displayId = 1\<rparr>"
  let ?b = "\<lparr>sel_x = 100, sel_y = 100, sel_width = 200, sel_height = 150\<rparr>"
  have r: "safeCropRect exact_ops ?b 1920 1080 3840 2160
      = \<lparr>rect_x = Fin 200, rect_y = Fin 200, rect_width = Fin 400, rect_height = Fin 300\<rparr>"
    by (simp add: safeCropRect_def exact_ops_def Let_def)
  have half: "safeCropRect exact_ops
        \<lparr>sel_x = 401 / 4, sel_y = 100, sel_width = 200, sel_height = 150\<rparr> 1920 1080 3840 2160
      = \<lparr>rect_x = Fin 201, rect_y = Fin 200, rect_width = Fin 400, rect_height = Fin 300\<rparr>"
    by (simp add: safeCropRect_def exact_ops_def Let_def)
  have beyond: "safeCropRect exact_ops
        \<lparr>sel_x = 1900, sel_y = 1000, sel_width = 500, sel_height = 500\<rparr> 1920 1080 3840 2160
      = \<lparr>rect_x = Fin 3800, rect_y = Fin 2000, rect_width = Fin 40, rect_height = Fin 160\<rparr>"
    by (simp add: safeCropRect_def exact_ops_def Let_def)
  have c: "cropStoredScreenshot exact_ops (Some ?info) 3840 2160 ?b
      = Cropped \<lparr>rect_x = Fin 200, rect_y = Fin 200, rect_width = Fin 400, rect_height = Fin 300\<rparr>"
    by (simp add: cropStoredScreenshot_def r)
  have h1: "0 < size_width ?info" and h2: "0 < size_height ?info"
    and h3: "(0::int) < 3840" and h4: "(0::int) < 2160"
    by simp_all
  have "cropStoredScreenshot exact_ops (Some ?info) 3840 2160 ?b
      = captureCrop exact_ops (Some ?b) (Some ?info) 3840 2160"
    using crop_rect_inside_thumbnail [OF h1 h2 h3 h4, of exact_ops ?b] unfolding Let_def by blast
  with r half beyond c show ?thesis by simp
qed

section \<open>Prompt analysis dispatch: properties\<close>

lemma analyzePrompt_failure_of_throw:
  assumes "analyzeScreenshotWithVision JSON_parse fetch imageDataUrl apiKey = Inl e"
  shows "\<exists>msg. analyzePrompt JSON_parse fetch apiKey (Inr imageDataUrl) = Failure msg"
  using assms by (simp add: analyzePrompt_def)

lemma analyzePrompt_failure_without_image:
  "\<exists>msg. analyzePrompt JSON_parse fetch apiKey (Inl e) = Failure msg"
  by (simp add: analyzePrompt_def)

lemma parse_content_not_text:
  assumes "falsy content = False" and "\<forall>text. content \<noteq> Str text"
  shows "\<exists>e. parse_content JSON_parse content = Inl e"
  using assms by (cases content) (simp_all add: parse_content_def)

lemma vision_throws_on_http_error:
  assumes "fetch imageDataUrl apiKey = Inr response" and "ok response = False"
  shows "analyzeScreenshotWithVision JSON_parse fetch imageDataUrl apiKey
           = Inl (Error (''OpenRouter API error: '' @ show_nat (status response) @ '' - ''
                         @ body response))"
  using assms by (simp add: analyzeScreenshotWithVision_def)

lemma vision_throws_on_invalid_json:
  assumes "fetch imageDataUrl apiKey = Inr response" and "ok response"
    and "JSON_parse (body response) = None"
  shows "\<exists>e. analyzeScreenshotWithVision JSON_parse fetch imageDataUrl apiKey = Inl e"
  using assms by (simp add: analyzeScreenshotWithVision_def)

lemma vision_throws_on_missing_fields:
  assumes "fetch imageDataUrl apiKey = Inr response" and "ok response"
    and "JSON_parse (body response) = Some data" and "expected_content data = None"
  shows "\<exists>e. analyzeScreenshotWithVision JSON_parse fetch imageDataUrl apiKey = Inl e"
proof (cases "response_content data")
  case (Inl e)
  with assms(1-3) show ?thesis by (simp add: analyzeScreenshotWithVision_def)
next
  case (Inr content)
  show ?thesis
  proof (cases "falsy content")
    case True
    with Inr assms(1-3) show ?thesis by (simp add: analyzeScreenshotWithVision_def)
  next
    case False
    have "\<forall>text. content \<noteq> Str text"
    proof (intro allI notI)
      fix str assume "content = Str str"
      with Inr assms(4) False show False
        by (simp add: expected_content_def split: if_splits)
    qed
    with False obtain e where "parse_content JSON_parse content = Inl e"
      using parse_content_not_text [of content JSON_parse] by auto
    with Inr False assms(1-3) show ?thesis by (simp add: analyzeScreenshotWithVision_def)
  qed
qed

text \<open>
  C3. Let the backend answer the request with a response that carries an HTTP error status
  (\<^verbatim>\<open>ok\<close> is false), or whose body is not valid JSON, or whose body is valid JSON without
  the expected fields (no non-empty string at \<^verbatim>\<open>choices[0].message.content\<close>). In each of
  the three cases \<^verbatim>\<open>analyze-prompt\<close> returns \<^verbatim>\<open>{success: false, error: msg}\<close> for some
  string \<open>msg\<close>: every throw of \<^verbatim>\<open>analyzeScreenshotWithVision\<close> is a value the handler
  turns into the envelope, whatever the key and the screenshot step were.
\<close>

theorem analyzePrompt_bad_response_gives_failure:
  assumes "\<forall>img. fetch img apiKey = Inr response"
    and "ok response = False \<or>
         JSON_parse (body response) = None \<or>
         (\<exists>data. JSON_parse (body response) = Some data \<and> expected_content data = None)"
  shows "\<exists>msg. analyzePrompt JSON_parse fetch apiKey screenshot = Failure msg"
proof (cases screenshot)
  case (Inl e)
  then show ?thesis by (simp add: analyzePrompt_failure_without_image)
next
  case (Inr imageDataUrl)
  from assms(1) have f: "fetch imageDataUrl apiKey = Inr response" by simp
  have "\<exists>e. analyzeScreenshotWithVision JSON_parse fetch imageDataUrl apiKey = Inl e"
  proof (cases "ok response")
    case False
    with f show ?thesis by (simp add: vision_throws_on_http_error)
  next
    case True
    with assms(2) consider "JSON_parse (body response) = None"
      | data where "JSON_parse (body response) = Some data" "expected_content data = None"
      by auto
    then show ?thesis
    proof cases
      case 1
      with f True show ?thesis by (rule vision_throws_on_invalid_json)
    next
      case 2
      with f True show ?thesis by (rule vision_throws_on_missing_fields)
    qed
  qed
  then obtain e where "analyzeScreenshotWithVision JSON_parse fetch imageDataUrl apiKey = Inl e" ..
  then show ?thesis unfolding Inr by (rule analyzePrompt_failure_of_throw)
qed

text \<open>A stand-in for \<^verbatim>\<open>JSON.parse\<close> on three bodies, and the three kinds of response.\<close>

theorem analyzePrompt_bad_response_gives_failure_witness:
  "analyzePrompt (\<lambda>s. if s = ''{}'' then Some (Obj []) else None)
     (\<lambda>img key. Inr \<lparr>ok = False, status = 500, body = ''Internal Server Error''\<rparr>)
     ''sk-key'' (Inr ''data:image/jpeg;base64,AAAA'')
     = Failure ''OpenRouter API error: 500 - Internal Server Error'' \<and>
   analyzePrompt (\<lambda>s. if s = ''{}'' then Some (Obj []) else None)
     (\<lambda>img key. Inr \<lparr>ok = True, status = 200, body = ''<html>''\<rparr>)
     ''sk-key'' (Inr ''data:image/jpeg;base64,AAAA'')
     = Failure ''Unexpected token in JSON'' \<and>
   analyzePrompt (\<lambda>s. if s = ''{}'' then Some (Obj []) else None)
     (\<lambda>img key. Inr \<lparr>ok = True, status = 200, body = ''{}''\<rparr>)
     ''sk-key'' (Inr ''data:image/jpeg;base64,AAAA'')
     = Failure ''Cannot read properties of undefined''"
proof -
  let ?parse = "\<lambda>s. if s = ''{}'' then Some (Obj []) else None"
  let ?r1 = "\<lparr>ok = False, status = 500, body = ''Internal Server Error''\<rparr>"
  let ?r2 = "\<lparr>ok = True, status = 200, body = ''<html>''\<rparr>"
  let ?r3 = "\<lparr>ok = True, status = 200, body = ''{}''\<rparr>"
  let ?shot = "Inr ''data:image/jpeg;base64,AAAA'' :: js_error + string"
  have "\<exists>msg. analyzePrompt ?parse (\<lambda>img key. Inr ?r1) ''sk-key'' ?shot = Failure msg"
    by (rule analyzePrompt_bad_response_gives_failure [where response = ?r1]) simp_all
  then obtain m1
    where m1: "analyzePrompt ?parse (\<lambda>img key. Inr ?r1) ''sk-key'' ?shot = Failure m1" ..
  have "\<exists>msg. analyzePrompt ?parse (\<lambda>img key. Inr ?r2) ''sk-key'' ?shot = Failure msg"
    by (rule analyzePrompt_bad_response_gives_failure [where response = ?r2]) simp_all
  then obtain m2
    where m2: "analyzePrompt ?parse (\<lambda>img key. Inr ?r2) ''sk-key'' ?shot = Failure m2" ..
  have "\<exists>msg. analyzePrompt ?parse (\<lambda>img key. Inr ?r3) ''sk-key'' ?shot = Failure msg"
    by (rule analyzePrompt_bad_response_gives_failure [where response = ?r3])
      (simp_all add: expected_content_def response_content_def lookup_prop_def)
  then obtain m3
    where m3: "analyzePrompt ?parse (\<lambda>img key. Inr ?r3) ''sk-key'' ?shot = Failure m3" ..
  have e1: "m1 = ''OpenRouter API error: 500 - Internal Server Error''"
    using m1 by (simp add: analyzePrompt_def analyzeScreenshotWithVision_def show_nat.simps
        digit_of_def)
  have e2: "m2 = ''Unexpected token in JSON''"
    using m2 by (simp add: analyzePrompt_def analyzeScreenshotWithVision_def)
  have e3: "m3 = ''Cannot read properties of undefined''"
    using m3 by (simp add: analyzePrompt_def analyzeScreenshotWithVision_def
        response_content_def lookup_prop_def)
  from m1 m2 m3 e1 e2 e3 show ?thesis by simp
qed

lemma match_braces_in_spans:
  assumes "match_braces s = Some m"
  shows "m \<in> set (brace_spans s)"
proof -
  from assms obtain ob rest where t: "dropWhile (\<lambda>c. c \<noteq> CHR ''{'') s = ob # rest"
    by (cases "dropWhile (\<lambda>c. c \<noteq> CHR ''{'') s") (simp_all add: match_braces_def)
  let ?r = "rev (dropWhile (\<lambda>c. c \<noteq> CHR ''}'') (rev rest))"
  from assms t have r: "?r \<noteq> []" and m: "m = ob # ?r"
    by (cases ?r; simp add: match_braces_def)+
  have ob: "ob = CHR ''{''"
    using hd_dropWhile [of "\<lambda>c. c \<noteq> CHR ''{''" s] t by simp
  have suf: "suffix (ob # rest) s"
    using suffix_dropWhile [of "\<lambda>c. c \<noteq> CHR ''{''" s] t by simp
  have "suffix (dropWhile (\<lambda>c. c \<noteq> CHR ''}'') (rev rest)) (rev rest)"
    by (rule suffix_dropWhile)
  then have pre: "prefix ?r rest"
    by (simp add: suffix_to_prefix)
  from r have dw: "dropWhile (\<lambda>c. c \<noteq> CHR ''}'') (rev rest) \<noteq> []" by simp
  have lr: "last ?r = hd (dropWhile (\<lambda>c. c \<noteq> CHR ''}'') (rev rest))"
    using dw by (simp only: last_rev)
  have hd_close: "hd (dropWhile (\<lambda>c. c \<noteq> CHR ''}'') (rev rest)) = CHR ''}''"
    using hd_dropWhile [OF dw] by simp
  have "last m = last ?r"
    unfolding m using r by (rule last_ConsR)
  with lr hd_close have lst: "last m = CHR ''}''" by (simp only:)
  from pre have "prefix m (ob # rest)" by (simp add: m)
  then have inp: "m \<in> set (prefixes (ob # rest))" by (simp only: in_set_prefixes)
  from suf have ins: "ob # rest \<in> set (suffixes s)" by (simp only: in_set_suffixes)
  have "m \<in> set (concat (map prefixes (suffixes s)))"
    unfolding set_concat set_map using inp ins by blast
  with lst m ob show ?thesis by (simp add: brace_spans_def)
qed

lemma parse_content_fallback:
  assumes "no_parsable_object JSON_parse text"
  shows "parse_content JSON_parse (Str text) = Inr (fallback_analysis text)"
proof (cases "match_braces text")
  case None
  then show ?thesis by (simp add: parse_content_def)
next
  case (Some m)
  then have "m \<in> set (brace_spans text)" by (rule match_braces_in_spans)
  with assms have "JSON_parse m = None" by (simp add: no_parsable_object_def)
  with Some show ?thesis by (simp add: parse_content_def)
qed

text \<open>
  C4. Let the key be configured and the screenshot step succeed, and let the backend
  answer with an OK response whose \<^verbatim>\<open>choices[0].message.content\<close> is a text (a non-empty
  string; for an empty one the program reports that there is no response) that contains
  no parsable JSON object. Then \<^verbatim>\<open>analyze-prompt\<close> returns \<^verbatim>\<open>success: true\<close>, and the
  data are: score 50, refinedScore 50, an empty improvedPrompt, and as feedback the first
  200 characters of the text (with the fixed prompt text, repeated as screenText). No
  error is returned.
\<close>

theorem analyzePrompt_free_text_gives_fallback:
  assumes "apiKey \<noteq> []" and "apiKey \<noteq> ''YOUR_DEFAULT_API_KEY_HERE''"
    and "fetch imageDataUrl apiKey = Inr response" and "ok response"
    and "JSON_parse (body response) = Some data"
    and "response_content data = Inr (Str text)" and "text \<noteq> []"
    and "no_parsable_object JSON_parse text"
  shows "analyzePrompt JSON_parse fetch apiKey (Inr imageDataUrl)
           = Success (Obj [(''prompt'', Str ''Could not identify prompt''),
                           (''score'', Num 50),
                           (''feedback'', Str (take 200 text)),
                           (''improvedPrompt'', Str []),
                           (''refinedScore'', Num 50),
                           (''screenText'', Str ''Could not identify prompt'')])"
proof -
  have "parse_content JSON_parse (Str text) = Inr (fallback_analysis text)"
    using assms(8) by (rule parse_content_fallback)
  with assms(3-7)
  have "analyzeScreenshotWithVision JSON_parse fetch imageDataUrl apiKey
      = Inr (fallback_analysis text)"
    by (simp add: analyzeScreenshotWithVision_def)
  with assms(1,2) show ?thesis
    by (simp add: analyzePrompt_def fallback_analysis_def lookup_prop_def)
qed

theorem analyzePrompt_free_text_gives_fallback_witness:
  "analyzePrompt sample_parse sample_fetch ''sk-key'' (Inr ''data:image/jpeg;base64,AAAA'')
     = Success (Obj [(''prompt'', Str ''Could not identify prompt''),
                     (''score'', Num 50),
                     (''feedback'', Str ''none {x}''),
                     (''improvedPrompt'', Str []),
                     (''refinedScore'', Num 50),
                     (''screenText'', Str ''Could not identify prompt'')])"
proof -
  let ?response = "\<lparr>ok = True, status = 200, body = ''reply''\<rparr>"
  let ?data = "Obj [(''choices'',
                     Arr [Obj [(''message'',
                                Obj [(''role'', Str ''assistant''),
                                     (''content'', Str ''none {x}'')])]])]"
  have k1: "''sk-key'' \<noteq> []" and k2: "''sk-key'' \<noteq> ''YOUR_DEFAULT_API_KEY_HERE''"
    by simp_all
  have f: "sample_fetch ''data:image/jpeg;base64,AAAA'' ''sk-key'' = Inr ?response"
    by (simp add: sample_fetch_def)
  have o: "ok ?response" by simp
  have p: "sample_parse (body ?response) = Some ?data"
    by (simp add: sample_parse_def)
  have c: "response_content ?data = Inr (Str ''none {x}'')"
    by (simp add: response_content_def lookup_prop_def)
  have n: "''none {x}'' \<noteq> []" by simp
  have spans: "set (brace_spans ''none {x}'') = {''{x}''}"
    by (simp add: brace_spans_def)
  have np: "no_parsable_object sample_parse ''none {x}''"
    unfolding no_parsable_object_def spans by (simp add: sample_parse_def)
  from analyzePrompt_free_text_gives_fallback
      [where fetch = sample_fetch and JSON_parse = sample_parse, OF k1 k2 f o p c n np]
  show ?thesis by simp
qed

section \<open>Matching a capture source: properties\<close>

lemma findIndex_from_bounds:
  assumes "\<exists>x \<in> set xs. p x"
  shows "i \<le> findIndex_from p xs i \<and> findIndex_from p xs i < i + int (length xs)"
  using assms
proof (induction xs arbitrary: i)
  case Nil
  then show ?case by simp
next
  case (Cons x xs)
  show ?case
  proof (cases "p x")
    case True
    then show ?thesis by simp
  next
    case False
    with Cons.prems have "\<exists>y \<in> set xs. p y" by simp
    from Cons.IH [OF this, of "i + 1"] False show ?thesis by simp
  qed
qed

lemma findIndex_of_member:
  assumes "a \<in> set ds"
  shows "0 \<le> findIndex (\<lambda>d. disp_id d = disp_id a) ds"
    and "nat (findIndex (\<lambda>d. disp_id d = disp_id a) ds) < length ds"
proof -
  from assms have "\<exists>x \<in> set ds. disp_id x = disp_id a" by blast
  from findIndex_from_bounds [OF this, of 0]
  show "0 \<le> findIndex (\<lambda>d. disp_id d = disp_id a) ds"
    and "nat (findIndex (\<lambda>d. disp_id d = disp_id a) ds) < length ds"
    by (simp_all add: findIndex_def nat_less_iff)
qed

lemma find_in_set: "find p xs = Some x \<Longrightarrow> x \<in> set xs"
  by (induction xs) (simp_all split: if_splits)

lemma aspect_loop_in_set:
  "fst (foldl (aspect_step ops da) best xs) \<in> insert (fst best) (set xs)"
proof (induction xs arbitrary: best)
  case Nil
  show ?case by simp
next
  case (Cons x xs)
  have "fst (aspect_step ops da best x) = x \<or> fst (aspect_step ops da best x) = fst best"
    by (simp add: aspect_step_def Let_def)
  with Cons.IH [of "aspect_step ops da best x"] show ?case by auto
qed

lemma aspectRatioMatch_in_set:
  assumes "aspectRatioMatch ops sources a = Some s"
  shows "s \<in> set sources"
proof (cases sources)
  case Nil
  with assms show ?thesis by (simp add: aspectRatioMatch_def)
next
  case (Cons first others)
  let ?da = "d_div ops (int (disp_width a)) (int (disp_height a))"
  let ?best = "foldl (aspect_step ops ?da) (first, d_infinity ops) sources"
  from assms Cons have "s = fst ?best"
    by (auto simp add: aspectRatioMatch_def Let_def split: if_splits)
  moreover have "fst ?best \<in> insert first (set sources)"
    using aspect_loop_in_set [of ops ?da "(first, d_infinity ops)" sources]
    by simp
  ultimately show ?thesis using Cons by auto
qed

text \<open>
  C2 (as the code has it). For a non-empty list of sources and a list of displays that
  holds the active display, \<^verbatim>\<open>captureScreenshot\<close> does not throw and selects one of the
  sources, by the first of these that applies, a later one being looked at only when all
  before it gave nothing:
  \<^enum> the first source whose \<^verbatim>\<open>display_id\<close> equals the active display's id;
  \<^enum> the first source whose id holds the active display's index as its screen number;
  \<^enum> the source at the active display's index, when there are as many sources as
    displays;
  \<^enum> for the primary display, the first source with a primary name pattern and, when
    there is none, the first source: for the primary display this step always decides;
    for another display, the first source named \<^verbatim>\<open>Screen n\<close> with \<open>n\<close> the index plus one;
  \<^enum> with more than one source, the source nearest in aspect ratio, when the difference
    is below 0.1 (the quotients, the differences and the comparisons being those of the
    program's doubles, whatever they are);
  \<^enum> the first source.
\<close>

theorem selectSource_priority_chain:
  assumes "sources \<noteq> []" and "activeDisplay \<in> set allDisplays"
  shows "selectSource ops allDisplays activeDisplay primaryDisplayId sources =
     Inr (let activeDisplayIndex = findIndex (\<lambda>d. disp_id d = disp_id activeDisplay) allDisplays in
          case displayIdMatch sources activeDisplay of
            Some s \<Rightarrow> (s, DisplayIdMatch)
          | None \<Rightarrow>
         (case sourceWithMatchingIndex sources activeDisplayIndex of
            Some s \<Rightarrow> (s, SourceIdScreenNumber)
          | None \<Rightarrow>
         (if length sources = length allDisplays
          then (sources ! nat activeDisplayIndex, ArrayIndex)
          else if disp_id activeDisplay = primaryDisplayId
          then ((case primaryNameMatch sources of Some s \<Rightarrow> s | None \<Rightarrow> hd sources),
                PrimaryHeuristic)
          else
         (case secondarySource sources (activeDisplayIndex + 1) of
            Some s \<Rightarrow> (s, ScreenName (activeDisplayIndex + 1))
          | None \<Rightarrow>
         (if 1 < length sources then
            (case aspectRatioMatch ops sources activeDisplay of
               Some s \<Rightarrow> (s, AspectRatio)
             | None \<Rightarrow> (hd sources, DefaultFirst))
          else (hd sources, DefaultFirst)))))) \<and>
   (\<exists>s m. selectSource ops allDisplays activeDisplay primaryDisplayId sources = Inr (s, m) \<and>
           s \<in> set sources)"
proof -
  let ?idx = "findIndex (\<lambda>d. disp_id d = disp_id activeDisplay) allDisplays"
  from assms(2) have idx0: "0 \<le> ?idx" and idxlt: "nat ?idx < length allDisplays"
    by (rule findIndex_of_member)+
  from assms(1) obtain first others where S: "sources = first # others"
    by (cases sources) auto
  have hd_in: "hd sources \<in> set sources" using assms(1) by simp
  have nth_in: "sources ! nat ?idx \<in> set sources" if "length sources = length allDisplays"
    using idxlt that by simp
  have f1: "s \<in> set sources" if "displayIdMatch sources activeDisplay = Some s" for s
    using that unfolding displayIdMatch_def by (rule find_in_set)
  have f2: "s \<in> set sources" if "sourceWithMatchingIndex sources ?idx = Some s" for s
    using that unfolding sourceWithMatchingIndex_def by (rule find_in_set)
  have f3: "s \<in> set sources" if "primaryNameMatch sources = Some s" for s
    using that unfolding primaryNameMatch_def by (rule find_in_set)
  have f4: "s \<in> set sources" if "secondarySource sources (?idx + 1) = Some s" for s
    using that unfolding secondarySource_def by (rule find_in_set)
  have f5: "s \<in> set sources" if "aspectRatioMatch ops sources activeDisplay = Some s" for s
    using that by (rule aspectRatioMatch_in_set)
  let ?chain = "(case displayIdMatch sources activeDisplay of
            Some s \<Rightarrow> (s, DisplayIdMatch)
          | None \<Rightarrow>
         (case sourceWithMatchingIndex sources ?idx of
            Some s \<Rightarrow> (s, SourceIdScreenNumber)
          | None \<Rightarrow>
         (if length sources = length allDisplays
          then (sources ! nat ?idx, ArrayIndex)
          else if disp_id activeDisplay = primaryDisplayId
          then ((case primaryNameMatch sources of Some s \<Rightarrow> s | None \<Rightarrow> hd sources),
                PrimaryHeuristic)
          else
         (case secondarySource sources (?idx + 1) of
            Some s \<Rightarrow> (s, ScreenName (?idx + 1))
          | None \<Rightarrow>
         (if 1 < length sources then
            (case aspectRatioMatch ops sources activeDisplay of
               Some s \<Rightarrow> (s, AspectRatio)
             | None \<Rightarrow> (hd sources, DefaultFirst))
          else (hd sources, DefaultFirst))))))"
  have chain: "selectSource ops allDisplays activeDisplay primaryDisplayId sources = Inr ?chain \<and>
      fst ?chain \<in> set sources"
  proof (cases "displayIdMatch sources activeDisplay")
    case (Some s)
    with f1 [OF Some] show ?thesis using assms(1)
      by (simp add: selectSource_def method1_def method2_def method3_def method4_def
              method5_def nth_opt_def Let_def)
  next
    case m1: None
    show ?thesis
    proof (cases "sourceWithMatchingIndex sources ?idx")
      case (Some s)
      with m1 f2 [OF Some] show ?thesis using assms(1)
        by (simp add: selectSource_def method1_def method2_def method3_def method4_def
              method5_def nth_opt_def Let_def)
    next
      case m2: None
      show ?thesis
      proof (cases "length sources = length allDisplays")
        case True
        with m1 m2 idx0 idxlt nth_in [OF True] show ?thesis using assms(1)
          by (simp add: selectSource_def method1_def method2_def method3_def method4_def
              method5_def nth_opt_def Let_def)
      next
        case m3: False
        show ?thesis
        proof (cases "disp_id activeDisplay = primaryDisplayId")
          case True
          show ?thesis
          proof (cases "primaryNameMatch sources")
            case None
            with m1 m2 m3 True show ?thesis unfolding S
              by (simp add: selectSource_def method1_def method2_def method3_def method4_def
              method5_def nth_opt_def Let_def)
          next
            case (Some s)
            with m1 m2 m3 True f3 [OF Some] show ?thesis using assms(1)
              by (simp add: selectSource_def method1_def method2_def method3_def method4_def
              method5_def nth_opt_def Let_def)
          qed
        next
          case notprimary: False
          show ?thesis
          proof (cases "secondarySource sources (?idx + 1)")
            case (Some s)
            with m1 m2 m3 notprimary f4 [OF Some] show ?thesis using assms(1)
              by (simp add: selectSource_def method1_def method2_def method3_def method4_def
              method5_def nth_opt_def Let_def)
          next
            case m4: None
            show ?thesis
            proof (cases "1 < length sources")
              case False
              with m1 m2 m3 m4 notprimary show ?thesis unfolding S
                by (simp add: selectSource_def method1_def method2_def method3_def method4_def
              method5_def nth_opt_def Let_def)
            next
              case many: True
              show ?thesis
              proof (cases "aspectRatioMatch ops sources activeDisplay")
                case None
                with m1 m2 m3 m4 notprimary many show ?thesis unfolding S
                  by (simp add: selectSource_def method1_def method2_def method3_def method4_def
              method5_def nth_opt_def Let_def)
              next
                case (Some s)
                with m1 m2 m3 m4 notprimary many f5 [OF Some] show ?thesis using assms(1)
                  by (simp add: selectSource_def method1_def method2_def method3_def method4_def
              method5_def nth_opt_def Let_def)
              qed
            qed
          qed
        qed
      qed
    qed
  qed
  then have "selectSource ops allDisplays activeDisplay primaryDisplayId sources = Inr ?chain"
    and "\<exists>s m. selectSource ops allDisplays activeDisplay primaryDisplayId sources = Inr (s, m) \<and>
           s \<in> set sources"
    by (simp, metis prod.collapse)
  then show ?thesis by (simp add: Let_def)
qed

text \<open>The second of the two displays is active and is not the primary one: no id, screen
  number, count or name decides, and the first source has the display's shape (1280 / 1024
  is 1.25 in doubles too, so its difference is 0).\<close>

theorem selectSource_priority_chain_witness:
  "three_sources \<noteq> [] \<and>
   \<lparr>disp_id = 2, disp_width = 1280, disp_height = 1024\<rparr> \<in> set two_displays \<and>
   selectSource exact_ops two_displays \<lparr>disp_id = 2, disp_width = 1280, disp_height = 1024\<rparr> 1 three_sources
     = Inr (\<lparr>source_id = ''screen:529:0'', source_name = ''Bildschirm A'', source_display_id = [],
             thumb_width = 1280, thumb_height = 1024\<rparr>, AspectRatio)"
proof -
  let ?d = "\<lparr>disp_id = 2, disp_width = 1280, disp_height = 1024\<rparr>"
  have h1: "three_sources \<noteq> []" by (simp add: three_sources_def)
  have h2: "?d \<in> set two_displays" by (simp add: two_displays_def)
  from selectSource_priority_chain [OF h1 h2, of exact_ops 1]
  have "selectSource exact_ops two_displays ?d 1 three_sources
     = Inr (\<lparr>source_id = ''screen:529:0'', source_name = ''Bildschirm A'', source_display_id = [],
             thumb_width = 1280, thumb_height = 1024\<rparr>, AspectRatio)"
    by (simp add: two_displays_def three_sources_def findIndex_def
        displayIdMatch_def sourceWithMatchingIndex_def secondarySource_def
        aspectRatioMatch_def aspect_step_def exact_ops_def
        match_screen_at_def is_digit_def parseInt10_def digit_val_def
        number_toString_def show_nat.simps digit_of_def Let_def)
  with h1 h2 show ?thesis by simp
qed

text \<open>
  C2 as the specification states it fails where the active display is the primary one
  and no name matches: name matching (heuristic 4) gives nothing and the aspect ratio
  (heuristic 5) points to the second source, which the specified chain selects; the
  program selects the first source, by its primary-display step, and never looks at the
  aspect ratio. (The second thumbnail and the display have the same sizes, so the
  difference of their ratios is 0 in doubles as well.)
\<close>

theorem selectSource_primary_skips_aspect_ratio:
  "primaryNameMatch three_sources = None \<and>
   aspectRatioMatch exact_ops three_sources \<lparr>disp_id = 1, disp_width = 1920, disp_height = 1080\<rparr>
     = Some \<lparr>source_id = ''screen:530:0'', source_name = ''Bildschirm B'', source_display_id = [],
             thumb_width = 1920, thumb_height = 1080\<rparr> \<and>
   specified_selection exact_ops two_displays \<lparr>disp_id = 1, disp_width = 1920, disp_height = 1080\<rparr> 1
       three_sources
     = Some \<lparr>source_id = ''screen:530:0'', source_name = ''Bildschirm B'', source_display_id = [],
             thumb_width = 1920, thumb_height = 1080\<rparr> \<and>
   selectSource exact_ops two_displays \<lparr>disp_id = 1, disp_width = 1920, disp_height = 1080\<rparr> 1 three_sources
     = Inr (\<lparr>source_id = ''screen:529:0'', source_name = ''Bildschirm A'', source_display_id = [],
             thumb_width = 1280, thumb_height = 1024\<rparr>, PrimaryHeuristic)"
proof -
  let ?d = "\<lparr>disp_id = 1, disp_width = 1920, disp_height = 1080\<rparr>"
  have names: "primaryNameMatch three_sources = None"
    by (simp add: primaryNameMatch_def three_sources_def toLowerCase_def lower_char_def)
  have ratio: "aspectRatioMatch exact_ops three_sources ?d
     = Some \<lparr>source_id = ''screen:530:0'', source_name = ''Bildschirm B'', source_display_id = [],
             thumb_width = 1920, thumb_height = 1080\<rparr>"
    by (simp add: three_sources_def aspectRatioMatch_def aspect_step_def exact_ops_def
        Let_def)
  have ids: "displayIdMatch three_sources ?d = None"
    by (simp add: displayIdMatch_def three_sources_def)
  have idx: "findIndex (\<lambda>d. disp_id d = 1) two_displays = 0"
    by (simp add: findIndex_def two_displays_def)
  have nums: "sourceWithMatchingIndex three_sources 0 = None"
    by (simp add: sourceWithMatchingIndex_def three_sources_def match_screen_at_def
        is_digit_def parseInt10_def digit_val_def)
  have lens: "length three_sources = 3" "length two_displays = 2"
    by (simp_all add: three_sources_def two_displays_def)
  have first: "nth_opt three_sources 0
     = Some \<lparr>source_id = ''screen:529:0'', source_name = ''Bildschirm A'', source_display_id = [],
             thumb_width = 1280, thumb_height = 1024\<rparr>"
    by (simp add: nth_opt_def three_sources_def)
  have ne: "three_sources \<noteq> []" by (simp add: three_sources_def)
  have spec: "specified_selection exact_ops two_displays ?d 1 three_sources
     = Some \<lparr>source_id = ''screen:530:0'', source_name = ''Bildschirm B'', source_display_id = [],
             thumb_width = 1920, thumb_height = 1080\<rparr>"
    by (simp add: specified_selection_def Let_def idx ids nums lens names ratio)
  have code: "selectSource exact_ops two_displays ?d 1 three_sources
     = Inr (\<lparr>source_id = ''screen:529:0'', source_name = ''Bildschirm A'', source_display_id = [],
             thumb_width = 1280, thumb_height = 1024\<rparr>, PrimaryHeuristic)"
    by (simp add: selectSource_def Let_def ne idx method1_def method2_def method3_def
        method4_def method5_def ids nums lens names first)
  from names ratio spec code show ?thesis by simp
qed

end
